theory Spec2Isabelle
  imports Complex_Main "HOL-Library.Word" "HOL-Library.Char_ord" "HOL-Library.List_Lexorder"
begin

section \<open>CT scan reconstruction: \<open>prepare_3d_data.py\<close>\<close>

text \<open>
  Conventions of the embedding.
  \<^item> A Python \<open>float\<close> is a \<open>real\<close> (every finite float is a real number; rounding,
    infinities and NaN of IEEE arithmetic are not modelled, except that the NaN centroid
    of an empty mask is \<open>None\<close>). \<open>math.atan\<close> is \<open>arctan\<close>.
  \<^item> A fixed-length tuple is a HOL tuple; a numpy array is a rectangular nested list
    whose outermost list is axis 0.
  \<^item> An exception is a value of type \<open>error\<close>; a function that may raise returns
    \<open>error + 'a\<close>, and a method that may raise after mutating the object returns the
    result together with the object.
  \<^item> The libraries the module calls (VTK, the slice loader, the file system) are fields
    of a record of functions, the same for every call: they are not part of
    \<open>prepare_3d_data.py\<close>.
\<close>

subsection \<open>Module constants\<close>

definition OUT_SIZE :: "nat \<times> nat" where
  "OUT_SIZE = (400, 400)"

definition BG_HU :: int where
  "BG_HU = - 2000"

subsection \<open>Data\<close>

type_synonym orientation = "real \<times> real \<times> real \<times> real \<times> real \<times> real"
type_synonym bounds = "real \<times> real \<times> real \<times> real \<times> real \<times> real"
type_synonym extent = "int \<times> int \<times> int \<times> int \<times> int \<times> int"
type_synonym spacing3 = "real \<times> real \<times> real"
type_synonym slice2 = "real list list"
type_synonym volume = "real list list list"

text \<open>\<open>ShearParams = namedtuple('ShearParams', 'rad_tilt, minus_center_z')\<close>\<close>

type_synonym ShearParams = "real \<times> real"

text \<open>
  The exceptions of the module. The source raises the first and the third as plain
  \<open>Exception\<close> with the messages "Wrong patient orientation: ..." and
  "Cannot read 3D dicom image", and the second as \<open>ValueError('Invalid scan. Path: ...')\<close>.
  \<open>ReshapeError\<close> and \<open>StackError\<close> are the \<open>ValueError\<close>s of \<open>ndarray.reshape\<close> and
  \<open>np.stack\<close>; \<open>IOError\<close> and \<open>LibraryError\<close> are raised by collaborators. All of them
  derive from \<open>Exception\<close>.
\<close>

datatype error =
    OrientationError orientation
  | InvalidSpacingError string
  | ShortVolumeError
  | ReshapeError
  | StackError
  | IOError string
  | LibraryError string

text \<open>The \<open>spacing\<close> argument: \<open>'auto'\<close>, \<open>'none'\<close>, or an explicit \<open>[x, y, z]\<close>.\<close>

datatype spacing_policy = Auto | NoResample | Explicit spacing3

text \<open>What the module reads from \<open>vtkDICOMImageReader\<close> after \<open>Update()\<close>.\<close>

record reader_output =
  orientation_patient :: orientation
  output_bounds :: bounds
  output_extent :: extent
  output_scalars :: "real list"

text \<open>The output of a VTK filter (reslice or resample), as \<open>get_slices\<close> reads it.\<close>

record vtk_data =
  dimensions :: "nat \<times> nat \<times> nat"
  data_spacing :: spacing3
  scalars :: "real list"

datatype transform_op = Shear real real real | RotateWXYZ real real real real

record pad_config =
  pad_constant :: real
  pad_whole_extent :: extent

datatype interpolation = Nearest | Linear | Cubic

text \<open>The configuration \<open>update_image\<close> gives to \<open>vtkImageReslice\<close> before \<open>Update()\<close>.\<close>

record reslice_config =
  rs_input :: reader_output
  rs_pad :: "pad_config option"
  rs_transform :: "transform_op list"
  rs_interpolation :: interpolation
  rs_auto_crop :: bool
  rs_background :: real

text \<open>The VTK operations, as functions that may raise.\<close>

record engine =
  read_series :: "string \<Rightarrow> error + reader_output"
  reslice :: "reslice_config \<Rightarrow> error + vtk_data"
  resample :: "vtk_data \<Rightarrow> spacing3 \<Rightarrow> interpolation \<Rightarrow> error + vtk_data"

text \<open>
  The object state of \<open>class VtkImage\<close>. \<open>image_vtk\<close> is the attribute \<open>self.image\<close>
  (\<open>None\<close> when nothing is cached). \<open>n_updates\<close> is not an attribute of the class: it
  counts the calls of \<open>update_image\<close> on the object, so that recomputation can be
  observed.
\<close>

record VtkImage =
  reader :: reader_output
  image_orientation :: orientation
  shear_params :: ShearParams
  scan_dir :: string
  spacing :: spacing_policy
  angle_z :: real
  angle_y :: real
  origin_x :: "int option"
  image_vtk :: "vtk_data option"
  n_updates :: nat

subsection \<open>\<open>VtkImage.__init__\<close>\<close>

definition VtkImage_init :: "engine \<Rightarrow> string \<Rightarrow> spacing_policy \<Rightarrow> error + VtkImage" where
  "VtkImage_init eng dir sp =
     (case read_series eng dir of
        Inl e \<Rightarrow> Inl e
      | Inr rd \<Rightarrow>
          (case orientation_patient rd of (x1, y1, z1, x2, y2, z2) \<Rightarrow>
             if y2 = 0 then Inl (OrientationError (orientation_patient rd))
             else
               let rad_tilt = arctan (z2 / y2);
                   center_z = (case output_bounds rd of (b0, b1, b2, b3, b4, b5) \<Rightarrow> b5) / 2
               in Inr \<lparr> reader = rd,
                        image_orientation = orientation_patient rd,
                        shear_params = (rad_tilt, - center_z),
                        scan_dir = dir,
                        spacing = sp,
                        angle_z = 0,
                        angle_y = 0,
                        origin_x = None,
                        image_vtk = None,
                        n_updates = 0 \<rparr>))"

subsection \<open>The setters\<close>

definition set_transform :: "real \<Rightarrow> real \<Rightarrow> int option \<Rightarrow> VtkImage \<Rightarrow> VtkImage" where
  "set_transform az ay ox v =
     v\<lparr> angle_z := az, angle_y := ay, origin_x := ox, image_vtk := None \<rparr>"

definition set_spacing :: "spacing_policy \<Rightarrow> VtkImage \<Rightarrow> VtkImage" where
  "set_spacing sp v = v\<lparr> spacing := sp, image_vtk := None \<rparr>"

subsection \<open>\<open>VtkImage.update_image\<close>\<close>

text \<open>Lines 86 to 89: the extent given to \<open>vtkImageConstantPad\<close>.\<close>

definition padded_extent :: "extent \<Rightarrow> int \<Rightarrow> extent" where
  "padded_extent ext ox =
     (case ext of (e0, e1, e2, e3, e4, e5) \<Rightarrow>
        let x_size = e1 - e0;
            e0' = e0 - max (x_size - 2 * ox) 0;
            e1' = e1 + max (2 * ox - x_size) 0
        in (e0', e1', e2, e3, e4, e5))"

definition build_transform :: "VtkImage \<Rightarrow> transform_op list" where
  "build_transform v =
     Shear 0 (fst (shear_params v)) (snd (shear_params v)) #
     (if angle_z v \<noteq> 0 \<or> angle_y v \<noteq> 0
      then [RotateWXYZ (- angle_z v) 0 0 1, RotateWXYZ (angle_y v) 0 1 0]
      else [])"

definition reslice_setup :: "VtkImage \<Rightarrow> reslice_config" where
  "reslice_setup v =
     \<lparr> rs_input = reader v,
       rs_pad = (case origin_x v of
                   Some ox \<Rightarrow> Some \<lparr> pad_constant = of_int BG_HU,
                                      pad_whole_extent = padded_extent (output_extent (reader v)) ox \<rparr>
                 | None \<Rightarrow> None),
       rs_transform = build_transform v,
       rs_interpolation = Cubic,
       rs_auto_crop = True,
       rs_background = of_int BG_HU \<rparr>"

text \<open>
  Lines 110 to 121: the target spacing, \<open>None\<close> for no resampling. \<open>not min_spacing\<close> is
  true exactly when the float is zero.
\<close>

definition resolve_spacing :: "spacing_policy \<Rightarrow> string \<Rightarrow> spacing3 \<Rightarrow> error + spacing3 option" where
  "resolve_spacing pol dir spacings_lists =
     (case pol of
        Auto \<Rightarrow>
          (case spacings_lists of (sx, sy, sz) \<Rightarrow>
             let min_spacing = min (min sx sy) sz
             in if min_spacing = 0 then Inl (InvalidSpacingError dir)
                else Inr (Some (min_spacing, min_spacing, min_spacing)))
      | NoResample \<Rightarrow> Inr None
      | Explicit s \<Rightarrow> Inr (Some s))"

definition update_image :: "engine \<Rightarrow> VtkImage \<Rightarrow> (error + unit) \<times> VtkImage" where
  "update_image eng v0 =
     (let v = v0\<lparr> n_updates := Suc (n_updates v0) \<rparr>
      in case reslice eng (reslice_setup v0) of
           Inl e \<Rightarrow> (Inl e, v)
         | Inr rs \<Rightarrow>
             (case resolve_spacing (spacing v) (scan_dir v) (data_spacing rs) of
                Inl e \<Rightarrow> (Inl e, v)
              | Inr None \<Rightarrow> (Inr (), v\<lparr> image_vtk := Some rs \<rparr>)
              | Inr (Some sp) \<Rightarrow>
                  (case resample eng rs sp Cubic of
                     Inl e \<Rightarrow> (Inl e, v)
                   | Inr rsm \<Rightarrow> (Inr (), v\<lparr> image_vtk := Some rsm \<rparr>))))"

subsection \<open>\<open>VtkImage.get_slices\<close>\<close>

text \<open>
  \<open>array.reshape(depth, cols, rows)\<close> of a flat array in C order; it raises when the
  sizes do not agree.
\<close>

definition reshape3 :: "'a list \<Rightarrow> nat \<Rightarrow> nat \<Rightarrow> nat \<Rightarrow> error + 'a list list list" where
  "reshape3 xs d c r =
     (if length xs \<noteq> d * c * r then Inl ReshapeError
      else Inr (map (\<lambda>i. map (\<lambda>j. take r (drop ((i * c + j) * r) xs)) [0..<c]) [0..<d]))"

text \<open>\<open>np.rot90(array, 2, axes=(0, 1))\<close>: both axis 0 and axis 1 are reversed.\<close>

definition rot90_2 :: "'a list list list \<Rightarrow> 'a list list list" where
  "rot90_2 a = rev (map rev a)"

text \<open>
  \<open>dtype\<close> is the rounding of the requested numeric type, \<open>None\<close> for a falsy \<open>dtype\<close>.
\<close>

definition astype :: "(real \<Rightarrow> 'b) \<Rightarrow> real list list list \<Rightarrow> 'b list list list" where
  "astype f a = map (map (map f)) a"

definition extract_array ::
  "(real \<Rightarrow> real) option \<Rightarrow> ShearParams \<Rightarrow> vtk_data \<Rightarrow> error + (volume \<times> spacing3 \<times> ShearParams)" where
  "extract_array dtype sh img =
     (case dimensions img of (rows, cols, depth) \<Rightarrow>
        (case reshape3 (scalars img) depth cols rows of
           Inl e \<Rightarrow> Inl e
         | Inr a0 \<Rightarrow>
             let a1 = rot90_2 a0;
                 a2 = (case dtype of Some f \<Rightarrow> astype f a1 | None \<Rightarrow> a1)
             in if length a2 < 5 then Inl ShortVolumeError
                else Inr (a2, data_spacing img, sh)))"

text \<open>
  Line 142 reads \<open>self.image\<close> after \<open>update_image\<close> has returned; an attribute that
  is still \<open>None\<close> there would raise \<open>AttributeError\<close> (it cannot be: a returning
  \<open>update_image\<close> has assigned it).
\<close>

definition get_slices ::
  "engine \<Rightarrow> (real \<Rightarrow> real) option \<Rightarrow> VtkImage \<Rightarrow>
     (error + (volume \<times> spacing3 \<times> ShearParams)) \<times> VtkImage" where
  "get_slices eng dtype v0 =
     (let (r, v) = (if image_vtk v0 = None then update_image eng v0 else (Inr (), v0))
      in case r of
           Inl e \<Rightarrow> (Inl e, v)
         | Inr u \<Rightarrow>
             (case image_vtk v of
                None \<Rightarrow> (Inl (LibraryError ''AttributeError''), v)
              | Some img \<Rightarrow> (extract_array dtype (shear_params v) img, v)))"

subsection \<open>Arrays\<close>

text \<open>\<open>ndarray.shape\<close> of a three-dimensional array, read off the nested list.\<close>

definition shape2 :: "'a list list \<Rightarrow> nat \<times> nat" where
  "shape2 s = (length s, (case s of [] \<Rightarrow> 0 | r # _ \<Rightarrow> length r))"

definition shape3 :: "'a list list list \<Rightarrow> nat \<times> nat \<times> nat" where
  "shape3 v = (length v, (case v of [] \<Rightarrow> (0, 0) | s # _ \<Rightarrow> shape2 s))"

text \<open>
  \<open>np.stack(slices)\<close>: a new axis 0; it raises \<open>ValueError\<close> on an empty list and when
  the arrays do not all have the same shape.
\<close>

definition np_stack :: "slice2 list \<Rightarrow> error + volume" where
  "np_stack slices =
     (case slices of
        [] \<Rightarrow> Inl StackError
      | s # rest \<Rightarrow>
          if list_all (\<lambda>t. shape2 t = shape2 s) rest then Inr slices else Inl StackError)"

text \<open>
  \<open>ndimage.measurements.center_of_mass\<close> of a boolean array (scipy): on each axis the
  sum of the coordinates of the true voxels divided by their number. With no true voxel
  every coordinate is NaN, which is \<open>None\<close> here.
\<close>

definition voxel_coords :: "'a list list list \<Rightarrow> (nat \<times> nat \<times> nat \<times> 'a) list" where
  "voxel_coords v =
     concat (map (\<lambda>(i, s).
       concat (map (\<lambda>(j, r). map (\<lambda>(k, a). (i, j, k, a)) (enumerate 0 r)) (enumerate 0 s)))
       (enumerate 0 v))"

definition center_of_mass :: "bool list list list \<Rightarrow> (real \<times> real \<times> real) option" where
  "center_of_mass m =
     (let on = filter (\<lambda>(i, j, k, a). a) (voxel_coords m);
          normalizer = length on
      in if normalizer = 0 then None
         else Some (real (sum_list (map (\<lambda>(i, j, k, a). i) on)) / real normalizer,
                    real (sum_list (map (\<lambda>(i, j, k, a). j) on)) / real normalizer,
                    real (sum_list (map (\<lambda>(i, j, k, a). k) on)) / real normalizer))"

text \<open>\<open>scan > 0\<close>\<close>

definition positive_mask :: "volume \<Rightarrow> bool list list list" where
  "positive_mask scan = map (map (map (\<lambda>a. a > 0))) scan"

subsection \<open>\<open>data.utils.crop_scan\<close>\<close>

text \<open>
  Modelled from the spec: \<open>crop_scan\<close> of the module \<open>data.utils\<close>, which is not among
  the sources. Section 4.6 of the specification: a window of size
  (targetHeight, targetWidth) centred on (y, x) is cut out of every depth slice; the lower
  edge of the window is the floor of the centroid minus half the target size, the upper
  edge is the lower edge plus the target size; a position of the window outside the slice
  holds the background fill value.
\<close>

definition pixel_or_bg :: "slice2 \<Rightarrow> int \<Rightarrow> int \<Rightarrow> real \<Rightarrow> real" where
  "pixel_or_bg s r c bg =
     (if 0 \<le> r \<and> r < int (length s) \<and> 0 \<le> c \<and> c < int (length (s ! nat r))
      then s ! nat r ! nat c else bg)"

definition crop_slice :: "slice2 \<Rightarrow> nat \<times> nat \<Rightarrow> real \<Rightarrow> real \<Rightarrow> real \<Rightarrow> slice2" where
  "crop_slice s out_size x y bg =
     (case out_size of (tw, th) \<Rightarrow>
        let x_lo = \<lfloor>x - real tw / 2\<rfloor>;
            y_lo = \<lfloor>y - real th / 2\<rfloor>
        in map (\<lambda>i. map (\<lambda>j. pixel_or_bg s (y_lo + int i) (x_lo + int j) bg) [0..<tw]) [0..<th])"

definition crop_scan :: "volume \<Rightarrow> nat \<times> nat \<Rightarrow> real \<Rightarrow> real \<Rightarrow> real \<Rightarrow> volume" where
  "crop_scan scan out_size x y bg = map (\<lambda>s. crop_slice s out_size x y bg) scan"

subsection \<open>Strings\<close>

text \<open>
  \<open>str.replace(old, new)\<close> for a non-empty \<open>old\<close>: every occurrence, left to right,
  without overlap.
\<close>

function replace :: "string \<Rightarrow> string \<Rightarrow> string \<Rightarrow> string" where
  "replace old new [] = []"
| "replace old new (c # cs) =
     (if old \<noteq> [] \<and> take (length old) (c # cs) = old
      then new @ replace old new (drop (length old) (c # cs))
      else c # replace old new cs)"
  by pat_completeness auto
termination
  by (relation "measure (\<lambda>(old, new, s). length s)") (auto simp: neq_Nil_conv)

text \<open>The format \<open>{idx:03d}\<close>: decimal digits, padded with zeros to three characters.\<close>

fun decimal :: "nat \<Rightarrow> string" where
  "decimal n =
     (if n < 10 then [''0123456789'' ! n]
      else decimal (n div 10) @ [''0123456789'' ! (n mod 10)])"

declare decimal.simps [simp del]

definition format_03d :: "nat \<Rightarrow> string" where
  "format_03d n = replicate (3 - length (decimal n)) (CHR ''0'') @ decimal n"

subsection \<open>\<open>process_scan\<close>\<close>

text \<open>The dictionary \<open>meta\<close>; a NaN coordinate is \<open>None\<close>.\<close>

record meta =
  meta_spacing :: "spacing3 option"
  meta_image_orientation :: "orientation option"
  crop_x :: "real option"
  crop_y :: "real option"
  pre_crop_shape :: "nat \<times> nat \<times> nat"
  out_shape :: "nat \<times> nat \<times> nat"

datatype file_content = MetaJson meta | Npy "16 word list list"

text \<open>
  What \<open>process_scan\<close> does to the outside, in order. An operation is recorded when it
  has returned; one that raises ends the run and is not recorded.
\<close>

datatype event =
    Rmtree string
  | Makedirs string
  | PrintExc error
  | Print string
  | Write string file_content

text \<open>
  Everything \<open>process_scan\<close> calls outside the module. \<open>load\<close> is
  \<open>PydicomLoader.load(path, convert_hu)\<close> of \<open>preprocessing.pydicom_loader\<close>, which is not
  among the sources; \<open>iterdir\<close> gives the paths of the entries of a directory as strings,
  in any order; \<open>float32\<close> and \<open>int16\<close> are the conversions of \<open>astype\<close>;
  \<open>crop_scan_nan\<close> is \<open>crop_scan\<close> called with a NaN centroid, about which the
  specification says nothing.
\<close>

record world =
  vtk :: engine
  float32 :: "real \<Rightarrow> real"
  int16 :: "real \<Rightarrow> 16 word"
  iterdir :: "string \<Rightarrow> error + string list"
  load :: "string \<Rightarrow> bool \<Rightarrow> error + slice2"
  makedirs :: "string \<Rightarrow> error option"
  write_file :: "string \<Rightarrow> file_content \<Rightarrow> error option"
  crop_scan_nan :: "volume \<Rightarrow> error + volume"

text \<open>Lines 167 to 169, the body of \<open>try\<close>.\<close>

definition primary_path :: "world \<Rightarrow> string \<Rightarrow> error + (volume \<times> spacing3 \<times> orientation)" where
  "primary_path w dir =
     (case VtkImage_init (vtk w) dir NoResample of
        Inl e \<Rightarrow> Inl e
      | Inr vtk_image \<Rightarrow>
          (case get_slices (vtk w) (Some (float32 w)) vtk_image of
             (Inl e, vtk_image') \<Rightarrow> Inl e
           | (Inr (scan, sp, sh), vtk_image') \<Rightarrow> Inr (scan, sp, image_orientation vtk_image')))"

text \<open>Lines 177 and 178, the loop over the sorted directory.\<close>

fun load_slices :: "world \<Rightarrow> string list \<Rightarrow> error + slice2 list" where
  "load_slices w [] = Inr []"
| "load_slices w (slice_path # rest) =
     (case load w slice_path False of
        Inl e \<Rightarrow> Inl e
      | Inr s \<Rightarrow> (case load_slices w rest of Inl e \<Rightarrow> Inl e | Inr ss \<Rightarrow> Inr (s # ss)))"

text \<open>Lines 175 to 179, the body of \<open>except\<close> after the two prints.\<close>

definition fallback_path :: "world \<Rightarrow> string \<Rightarrow> error + volume" where
  "fallback_path w dir =
     (case iterdir w dir of
        Inl e \<Rightarrow> Inl e
      | Inr paths \<Rightarrow>
          (case load_slices w (sort paths) of
             Inl e \<Rightarrow> Inl e
           | Inr slices \<Rightarrow> np_stack slices))"

text \<open>Lines 166 to 181: \<open>try\<close> and \<open>except Exception\<close>.\<close>

definition reconstruct ::
  "world \<Rightarrow> string \<Rightarrow> event list \<times> (error + (volume \<times> spacing3 option \<times> orientation option))" where
  "reconstruct w dir =
     (case primary_path w dir of
        Inr (scan, sp, ori) \<Rightarrow> ([], Inr (scan, Some sp, Some ori))
      | Inl e \<Rightarrow>
          ([PrintExc e, Print dir],
           (case fallback_path w dir of
              Inl e' \<Rightarrow> Inl e'
            | Inr scan \<Rightarrow> Inr (scan, None, None))))"

text \<open>Lines 198 and 199, the loop that saves the slices, from index \<open>idx\<close>.\<close>

fun save_slices :: "world \<Rightarrow> string \<Rightarrow> nat \<Rightarrow> volume \<Rightarrow> event list \<times> error option" where
  "save_slices w out_dir idx [] = ([], None)"
| "save_slices w out_dir idx (scan_slice # rest) =
     (let path = out_dir @ format_03d idx @ ''.npy'';
          content = Npy (map (map (int16 w)) scan_slice)
      in case write_file w path content of
           Some e \<Rightarrow> ([], Some e)
         | None \<Rightarrow>
             (case save_slices w out_dir (Suc idx) rest of
                (evs, r) \<Rightarrow> (Write path content # evs, r)))"

text \<open>Lines 183 to 185: the centroid and the crop.\<close>

definition centroid_and_crop ::
  "world \<Rightarrow> volume \<Rightarrow> error + (real option \<times> real option \<times> volume)" where
  "centroid_and_crop w scan =
     (case center_of_mass (positive_mask scan) of
        None \<Rightarrow>
          (case crop_scan_nan w scan of
             Inl e \<Rightarrow> Inl e
           | Inr scan_cropped \<Rightarrow> Inr (None, None, scan_cropped))
      | Some (z, y, x) \<Rightarrow>
          Inr (Some x, Some y, crop_scan scan OUT_SIZE x y (of_int BG_HU)))"

text \<open>Lines 183 to 199, what follows the reconstruction.\<close>

definition crop_and_persist ::
  "world \<Rightarrow> string \<Rightarrow> volume \<times> spacing3 option \<times> orientation option \<Rightarrow>
     event list \<times> error option" where
  "crop_and_persist w out_dir recon =
     (case recon of (scan, sp, ori) \<Rightarrow>
        (case centroid_and_crop w scan of
           Inl e \<Rightarrow> ([], Some e)
         | Inr (x, y, scan_cropped) \<Rightarrow>
             let m = \<lparr> meta_spacing = sp,
                       meta_image_orientation = ori,
                       crop_x = x,
                       crop_y = y,
                       pre_crop_shape = shape3 scan,
                       out_shape = shape3 scan_cropped \<rparr>;
                 meta_path = out_dir @ ''../meta.json''
             in (case write_file w meta_path (MetaJson m) of
                   Some e \<Rightarrow> ([], Some e)
                 | None \<Rightarrow>
                     (case save_slices w out_dir 0 scan_cropped of
                        (evs, r) \<Rightarrow> (Write meta_path (MetaJson m) # evs, r)))))"

definition process_scan :: "world \<Rightarrow> string \<Rightarrow> event list \<times> error option" where
  "process_scan w dir =
     (let out_dir = replace ''dicom/'' ''3d/'' dir
      in case makedirs w out_dir of
           Some e \<Rightarrow> ([Rmtree out_dir], Some e)
         | None \<Rightarrow>
             (case reconstruct w dir of
                (evs1, Inl e) \<Rightarrow> ([Rmtree out_dir, Makedirs out_dir] @ evs1, Some e)
              | (evs1, Inr recon) \<Rightarrow>
                  (case crop_and_persist w out_dir recon of
                     (evs2, r) \<Rightarrow> ([Rmtree out_dir, Makedirs out_dir] @ evs1 @ evs2, r))))"

subsection \<open>Worked examples\<close>

text \<open>
  A series of five slices of one voxel each, tilted by 45 degrees, and an engine whose
  reslice output has the spacing \<open>sp\<close>.
\<close>

definition example_reader :: reader_output where
  "example_reader =
     \<lparr> orientation_patient = (1, 0, 0, 0, 1, 1),
       output_bounds = (0, 0, 0, 0, 0, 4),
       output_extent = (0, 0, 0, 0, 0, 4),
       output_scalars = [1, 2, 3, 4, 5] \<rparr>"

definition example_engine :: "spacing3 \<Rightarrow> engine" where
  "example_engine sp =
     \<lparr> read_series = (\<lambda>d. if d = ''s1/dicom/'' then Inr example_reader else Inl (IOError d)),
       reslice = (\<lambda>cfg. Inr \<lparr> dimensions = (1, 1, length (output_scalars (rs_input cfg))),
                              data_spacing = sp,
                              scalars = output_scalars (rs_input cfg) \<rparr>),
       resample = (\<lambda>img s interp. Inr (img\<lparr> data_spacing := s \<rparr>)) \<rparr>"

definition example_image :: "spacing_policy \<Rightarrow> VtkImage" where
  "example_image pol =
     \<lparr> reader = example_reader,
       image_orientation = (1, 0, 0, 0, 1, 1),
       shear_params = (pi / 4, - 2),
       scan_dir = ''s1/dicom/'',
       spacing = pol,
       angle_z = 0,
       angle_y = 0,
       origin_x = None,
       image_vtk = None,
       n_updates = 0 \<rparr>"

text \<open>
  A world in which every write succeeds, the directory \<open>s2/dicom/\<close> holds two slices of
  one voxel and \<open>s4/dicom/\<close> one, and the crop on a NaN centroid raises.
\<close>

definition example_world :: "engine \<Rightarrow> world" where
  "example_world eng =
     \<lparr> vtk = eng,
       float32 = (\<lambda>a. a),
       int16 = (\<lambda>a. word_of_int \<lfloor>a\<rfloor>),
       iterdir = (\<lambda>d. if d = ''s2/dicom/'' then Inr [''s2/dicom/b.dcm'', ''s2/dicom/a.dcm'']
                      else if d = ''s4/dicom/'' then Inr [''s4/dicom/a.dcm'']
                      else Inl (IOError d)),
       load = (\<lambda>p convert_hu.
                 if p = ''s2/dicom/a.dcm'' \<or> p = ''s4/dicom/a.dcm''
                 then Inr [[if convert_hu then - 1023 else 1]]
                 else if p = ''s2/dicom/b.dcm'' then Inr [[if convert_hu then - 1022 else 2]]
                 else Inl (IOError p)),
       makedirs = (\<lambda>d. None),
       write_file = (\<lambda>p c. None),
       crop_scan_nan = (\<lambda>v. Inl (LibraryError ''nan'')) \<rparr>"

section \<open>Properties of \<open>VtkImage\<close>\<close>

subsection \<open>The shear parameters\<close>

lemma update_image_shear: "shear_params (snd (update_image eng v)) = shear_params v"
  by (simp add: update_image_def Let_def split: sum.splits option.splits)

lemma get_slices_shear: "shear_params (snd (get_slices eng dt v)) = shear_params v"
  by (simp add: get_slices_def update_image_def Let_def
      split: sum.splits option.splits prod.splits)

text \<open>
  C1. When the reader delivers an orientation \<open>(x1, y1, z1, x2, y2, z2)\<close> with
  \<open>y2 \<noteq> 0\<close> and bounds whose last component is \<open>zMax\<close>, the constructor returns an
  object whose shear parameters are \<open>(atan (z2 / y2), - (zMax / 2))\<close>: a function of the
  orientation and the bounds alone. No method of the object changes them afterwards:
  neither setter, nor \<open>update_image\<close>, nor \<open>get_slices\<close>, with any engine and arguments.
\<close>

theorem shear_params_derivation:
  assumes "read_series eng dir = Inr rd"
    and "orientation_patient rd = (x1, y1, z1, x2, y2, z2)"
    and "y2 \<noteq> 0"
    and "output_bounds rd = (b0, b1, b2, b3, b4, zMax)"
  shows "(\<exists>v. VtkImage_init eng dir sp = Inr v \<and>
              shear_params v = (arctan (z2 / y2), - (zMax / 2))) \<and>
         (\<forall>v. shear_params (set_transform az ay ox v) = shear_params v \<and>
              shear_params (set_spacing sp' v) = shear_params v \<and>
              shear_params (snd (update_image eng' v)) = shear_params v \<and>
              shear_params (snd (get_slices eng' dt v)) = shear_params v)"
  using assms
  by (simp add: VtkImage_init_def set_transform_def set_spacing_def
      update_image_shear get_slices_shear)

theorem shear_params_derivation_witness:
  "VtkImage_init (example_engine (1, 1, 1)) ''s1/dicom/'' NoResample =
     Inr (example_image NoResample) \<and>
   shear_params (example_image NoResample) = (arctan (1 / 1), - (4 / 2))"
  using shear_params_derivation [of "example_engine (1, 1, 1)" "''s1/dicom/''" example_reader
      1 0 0 0 1 1 0 0 0 0 0 4 NoResample]
  by (simp add: example_engine_def example_reader_def example_image_def VtkImage_init_def
      arctan_one)

subsection \<open>The spacing policy \<open>auto\<close>\<close>

lemma resolve_spacing_Auto:
  "resolve_spacing Auto dir (sx, sy, sz) =
     (if min (min sx sy) sz = 0 then Inl (InvalidSpacingError dir)
      else Inr (Some (min (min sx sy) sz, min (min sx sy) sz, min (min sx sy) sz)))"
  by (simp add: resolve_spacing_def Let_def)

text \<open>
  C4, as the code has it. Under the policy \<open>auto\<close> the target spacing is the minimum
  \<open>m\<close> of the three spacings of the resliced volume, on all three axes, and the
  resolution raises \<open>InvalidSpacingError\<close> if and only if \<open>m\<close> is exactly zero: the
  guard is \<open>not min_spacing\<close>, so a negative minimum is not rejected and becomes the
  target spacing. In \<open>update_image\<close> a zero minimum raises the error, and a non-zero one
  hands \<open>(m, m, m)\<close> to the resampler, whose output is cached.
\<close>

theorem auto_spacing_resolution:
  assumes "spacing v = Auto"
    and "reslice eng (reslice_setup v) = Inr rs"
    and "data_spacing rs = (sx, sy, sz)"
    and "m = min (min sx sy) sz"
  shows "resolve_spacing Auto (scan_dir v) (sx, sy, sz) =
           (if m = 0 then Inl (InvalidSpacingError (scan_dir v)) else Inr (Some (m, m, m))) \<and>
         ((\<exists>e. resolve_spacing Auto (scan_dir v) (sx, sy, sz) = Inl e) \<longleftrightarrow> m = 0) \<and>
         (m = 0 \<longrightarrow> fst (update_image eng v) = Inl (InvalidSpacingError (scan_dir v))) \<and>
         (m \<noteq> 0 \<longrightarrow>
            fst (update_image eng v) = map_sum id (\<lambda>r. ()) (resample eng rs (m, m, m) Cubic) \<and>
            (\<forall>rsm. resample eng rs (m, m, m) Cubic = Inr rsm \<longrightarrow>
                   image_vtk (snd (update_image eng v)) = Some rsm))"
proof -
  have r: "resolve_spacing Auto (scan_dir v) (sx, sy, sz) =
           (if m = 0 then Inl (InvalidSpacingError (scan_dir v)) else Inr (Some (m, m, m)))"
    using assms(4) by (simp add: resolve_spacing_Auto)
  have u0: "m = 0 \<Longrightarrow> fst (update_image eng v) = Inl (InvalidSpacingError (scan_dir v))"
    using assms(1,2,3) r by (simp add: update_image_def Let_def)
  have u1: "fst (update_image eng v) = map_sum id (\<lambda>r. ()) (resample eng rs (m, m, m) Cubic)"
    if "m \<noteq> 0"
    using assms(1,2,3) r that by (simp add: update_image_def Let_def split: sum.splits)
  have u2: "image_vtk (snd (update_image eng v)) = Some rsm"
    if "m \<noteq> 0" "resample eng rs (m, m, m) Cubic = Inr rsm" for rsm
    using assms(1,2,3) r that by (simp add: update_image_def Let_def)
  show ?thesis using r u0 u1 u2 by simp
qed

theorem auto_spacing_resolution_witness:
  "resolve_spacing Auto ''s1/dicom/'' (1 / 2, 3 / 5, 7 / 10) = Inr (Some (1 / 2, 1 / 2, 1 / 2)) \<and>
   resolve_spacing Auto ''s1/dicom/'' (0, 3 / 5, 7 / 10) = Inl (InvalidSpacingError ''s1/dicom/'') \<and>
   fst (update_image (example_engine (0, 3 / 5, 7 / 10)) (example_image Auto)) =
     Inl (InvalidSpacingError ''s1/dicom/'')"
  using auto_spacing_resolution [of "example_image Auto" "example_engine (1 / 2, 3 / 5, 7 / 10)"
      "\<lparr> dimensions = (1, 1, 5), data_spacing = (1 / 2, 3 / 5, 7 / 10), scalars = [1, 2, 3, 4, 5] \<rparr>"
      "1 / 2" "3 / 5" "7 / 10" "1 / 2"]
    auto_spacing_resolution [of "example_image Auto" "example_engine (0, 3 / 5, 7 / 10)"
      "\<lparr> dimensions = (1, 1, 5), data_spacing = (0, 3 / 5, 7 / 10), scalars = [1, 2, 3, 4, 5] \<rparr>"
      0 "3 / 5" "7 / 10" 0]
  by (simp add: example_engine_def example_image_def example_reader_def reslice_setup_def)

text \<open>
  C4 as stated fails: with the spacings \<open>(-1, 1, 1)\<close> the minimum is not positive, and
  neither the resolution nor \<open>update_image\<close> raises.
\<close>

theorem auto_spacing_negative_counterexample:
  "min (min (- 1) 1) 1 \<le> (0::real) \<and>
   resolve_spacing Auto ''s1/dicom/'' (- 1, 1, 1) = Inr (Some (- 1, - 1, - 1)) \<and>
   fst (update_image (example_engine (- 1, 1, 1)) (example_image Auto)) = Inr ()"
  by (simp add: resolve_spacing_def update_image_def example_engine_def example_image_def Let_def)

subsection \<open>Padding for the horizontal origin\<close>

text \<open>
  C8. With \<open>origin_x = x0\<close> set, the reslice input is padded with the constant
  \<open>BG_HU = -2000\<close> to an extent that differs from the reader's extent
  \<open>(e0, e1, e2, e3, e4, e5)\<close> on the first axis only: the low edge moves down by
  \<open>lo = max (xSize - 2 * x0) 0\<close> and the high edge up by \<open>hi = max (2 * x0 - xSize) 0\<close>,
  where \<open>xSize = e1 - e0\<close>. Neither edge moves inwards, at most one of them moves, and the
  column \<open>x0\<close> of the input (counted from its low edge \<open>e0\<close>) is as far from the padded
  low edge as from the padded high edge; when the extent starts at 0, as the extents of
  the DICOM reader do, the midpoint of the padded extent is \<open>x0\<close> itself.
\<close>

theorem horizontal_padding:
  assumes "origin_x v = Some x0"
    and "output_extent (reader v) = (e0, e1, e2, e3, e4, e5)"
    and "lo = max ((e1 - e0) - 2 * x0) 0"
    and "hi = max (2 * x0 - (e1 - e0)) 0"
  shows "rs_pad (reslice_setup v) =
           Some \<lparr> pad_constant = - 2000, pad_whole_extent = (e0 - lo, e1 + hi, e2, e3, e4, e5) \<rparr> \<and>
         e0 - lo \<le> e0 \<and> e1 \<le> e1 + hi \<and>
         (lo = 0 \<or> hi = 0) \<and>
         (e0 + x0) - (e0 - lo) = (e1 + hi) - (e0 + x0) \<and>
         (e0 = 0 \<longrightarrow> (e0 - lo) + (e1 + hi) = 2 * x0)"
proof -
  have "rs_pad (reslice_setup v) =
           Some \<lparr> pad_constant = - 2000, pad_whole_extent = (e0 - lo, e1 + hi, e2, e3, e4, e5) \<rparr>"
    using assms by (simp add: reslice_setup_def padded_extent_def BG_HU_def Let_def)
  moreover have "e0 - lo \<le> e0 \<and> e1 \<le> e1 + hi \<and> (lo = 0 \<or> hi = 0) \<and>
         (e0 + x0) - (e0 - lo) = (e1 + hi) - (e0 + x0) \<and>
         (e0 = 0 \<longrightarrow> (e0 - lo) + (e1 + hi) = 2 * x0)"
    using assms(3,4) by (simp add: max_def) 
  ultimately show ?thesis by simp
qed

theorem horizontal_padding_witness:
  "rs_pad (reslice_setup ((example_image NoResample)\<lparr> origin_x := Some 2 \<rparr>)) =
     Some \<lparr> pad_constant = - 2000, pad_whole_extent = (0, 4, 0, 0, 0, 4) \<rparr>"
proof -
  have h1: "origin_x ((example_image NoResample)\<lparr> origin_x := Some 2 \<rparr>) = Some 2"
    by simp
  have h2: "output_extent (reader ((example_image NoResample)\<lparr> origin_x := Some 2 \<rparr>)) =
      (0, 0, 0, 0, 0, 4)"
    by (simp add: example_image_def example_reader_def)
  have h3: "(0::int) = max ((0 - 0) - 2 * 2) 0"
    by simp
  have h4: "(4::int) = max (2 * 2 - (0 - 0)) 0"
    by simp
  show ?thesis
    using horizontal_padding [OF h1 h2 h3 h4] by simp
qed

subsection \<open>The shape of the extracted array\<close>

lemma reshape3_shape:
  assumes "reshape3 xs d c r = Inr a"
  shows "length a = d \<and> (\<forall>s \<in> set a. length s = c \<and> (\<forall>row \<in> set s. length row = r))"
proof -
  have len: "length xs = d * c * r"
    using assms by (simp add: reshape3_def split: if_splits)
  have a: "a = map (\<lambda>i. map (\<lambda>j. take r (drop ((i * c + j) * r) xs)) [0..<c]) [0..<d]"
    using assms by (simp add: reshape3_def split: if_splits)
  have "length (take r (drop ((i * c + j) * r) xs)) = r" if "i < d" "j < c" for i j
  proof -
    have "i * c + j + 1 \<le> i * c + c" using that by simp
    also have "\<dots> = Suc i * c" by simp
    also have "\<dots> \<le> d * c" using that by (intro mult_le_mono1) simp
    finally have "(i * c + j + 1) * r \<le> d * c * r" by (rule mult_le_mono1)
    then have "(i * c + j) * r + r \<le> length xs" using len by (simp add: algebra_simps)
    then show ?thesis by simp
  qed
  then show ?thesis unfolding a by auto
qed

lemma rot90_2_length: "length (rot90_2 a) = length a"
  by (simp add: rot90_2_def)

lemma rot90_2_shape:
  "\<forall>s \<in> set a. length s = c \<and> (\<forall>row \<in> set s. length row = r) \<Longrightarrow>
   \<forall>s \<in> set (rot90_2 a). length s = c \<and> (\<forall>row \<in> set s. length row = r)"
  by (auto simp: rot90_2_def)

lemma astype_length: "length (astype f a) = length a"
  by (simp add: astype_def)

lemma astype_shape:
  "\<forall>s \<in> set a. length s = c \<and> (\<forall>row \<in> set s. length row = r) \<Longrightarrow>
   \<forall>s \<in> set (astype f a). length s = c \<and> (\<forall>row \<in> set s. length row = r)"
  by (auto simp: astype_def)

lemma extract_array_cases:
  assumes "dimensions img = (rows, cols, depth)"
    and "length (scalars img) = depth * cols * rows"
  shows "\<exists>a. length a = depth \<and>
            (\<forall>s \<in> set a. length s = cols \<and> (\<forall>row \<in> set s. length row = rows)) \<and>
            extract_array dtype sh img =
              (if depth < 5 then Inl ShortVolumeError else Inr (a, data_spacing img, sh))"
proof -
  obtain a0 where a0: "reshape3 (scalars img) depth cols rows = Inr a0"
    using assms(2) by (simp add: reshape3_def)
  have l0: "length a0 = depth"
    and s0: "\<forall>s \<in> set a0. length s = cols \<and> (\<forall>row \<in> set s. length row = rows)"
    using reshape3_shape [OF a0] by simp_all
  define a2 where "a2 = (case dtype of Some f \<Rightarrow> astype f (rot90_2 a0) | None \<Rightarrow> rot90_2 a0)"
  have l2: "length a2 = depth"
    using l0 by (simp add: a2_def astype_length rot90_2_length split: option.splits)
  have s2: "\<forall>s \<in> set a2. length s = cols \<and> (\<forall>row \<in> set s. length row = rows)"
  proof (cases dtype)
    case None
    then show ?thesis using rot90_2_shape [OF s0] by (simp add: a2_def)
  next
    case (Some f)
    then show ?thesis using astype_shape [OF rot90_2_shape [OF s0]] by (simp add: a2_def)
  qed
  have "extract_array dtype sh img =
      (if depth < 5 then Inl ShortVolumeError else Inr (a2, data_spacing img, sh))"
    using assms(1) a0 l2 by (simp add: extract_array_def a2_def Let_def)
  then show ?thesis using l2 s2 by blast
qed

lemma get_slices_cached:
  "image_vtk v = Some img \<Longrightarrow> get_slices eng dtype v = (extract_array dtype (shear_params v) img, v)"
  by (simp add: get_slices_def)

lemma update_image_cases:
  "(\<exists>e. update_image eng v = (Inl e, v\<lparr> n_updates := Suc (n_updates v) \<rparr>)) \<or>
   (\<exists>img. update_image eng v = (Inr (), v\<lparr> n_updates := Suc (n_updates v), image_vtk := Some img \<rparr>))"
  by (auto simp add: update_image_def Let_def split: sum.splits option.splits)

lemma get_slices_uncached:
  assumes "image_vtk v = None"
  shows "(\<exists>e. get_slices eng dtype v = (Inl e, v\<lparr> n_updates := Suc (n_updates v) \<rparr>)) \<or>
         (\<exists>img. get_slices eng dtype v =
            (extract_array dtype (shear_params v) img,
             v\<lparr> n_updates := Suc (n_updates v), image_vtk := Some img \<rparr>))"
proof -
  from update_image_cases [of eng v] show ?thesis
  proof
    assume "\<exists>e. update_image eng v = (Inl e, v\<lparr> n_updates := Suc (n_updates v) \<rparr>)"
    then show ?thesis using assms by (auto simp add: get_slices_def)
  next
    assume "\<exists>img. update_image eng v =
        (Inr (), v\<lparr> n_updates := Suc (n_updates v), image_vtk := Some img \<rparr>)"
    then show ?thesis using assms by (auto simp add: get_slices_def)
  qed
qed

lemma get_slices_final_image:
  assumes "image_vtk (snd (get_slices eng dtype v)) = Some img"
  shows "fst (get_slices eng dtype v) = extract_array dtype (shear_params v) img"
proof (cases "image_vtk v")
  case None
  from get_slices_uncached [OF None, of eng dtype] show ?thesis
    using assms None by auto
next
  case (Some img')
  then show ?thesis using assms by (simp add: get_slices_cached)
qed

text \<open>
  C5. Let \<open>img\<close> be the image \<open>get_slices\<close> reads (the one cached when it returns), with
  dimensions \<open>(rows, cols, depth)\<close> and as many scalars. Then \<open>get_slices\<close> raises
  \<open>ShortVolumeError\<close> if and only if \<open>depth < 5\<close>; with \<open>depth \<ge> 5\<close> it returns an array
  of shape \<open>(depth, cols, rows)\<close>, the spacing of the image and the shear parameters.
\<close>

theorem short_volume_check:
  assumes "image_vtk (snd (get_slices eng dtype v)) = Some img"
    and "dimensions img = (rows, cols, depth)"
    and "length (scalars img) = depth * cols * rows"
  shows "(fst (get_slices eng dtype v) = Inl ShortVolumeError \<longleftrightarrow> depth < 5) \<and>
         (5 \<le> depth \<longrightarrow>
            (\<exists>a. fst (get_slices eng dtype v) = Inr (a, data_spacing img, shear_params v) \<and>
                 length a = depth \<and>
                 (\<forall>s \<in> set a. length s = cols \<and> (\<forall>row \<in> set s. length row = rows))))"
proof -
  obtain a where a: "length a = depth"
    "\<forall>s \<in> set a. length s = cols \<and> (\<forall>row \<in> set s. length row = rows)"
    "extract_array dtype (shear_params v) img =
       (if depth < 5 then Inl ShortVolumeError else Inr (a, data_spacing img, shear_params v))"
    using extract_array_cases [OF assms(2,3)] by blast
  have g: "fst (get_slices eng dtype v) =
       (if depth < 5 then Inl ShortVolumeError else Inr (a, data_spacing img, shear_params v))"
    using get_slices_final_image [OF assms(1)] a(3) by simp
  show ?thesis
  proof (cases "depth < 5")
    case True
    then show ?thesis using g by simp
  next
    case False
    then show ?thesis using g a(1,2) by auto
  qed
qed


theorem short_volume_check_witness:
  "fst (get_slices (example_engine (1, 1, 1)) None (example_image NoResample)) =
     Inr ([[[5]], [[4]], [[3]], [[2]], [[1]]], (1, 1, 1), (pi / 4, - 2)) \<and>
   fst (get_slices (example_engine (1, 1, 1)) None
     ((example_image NoResample)\<lparr> image_vtk :=
        Some \<lparr> dimensions = (1, 1, 4), data_spacing = (1, 1, 1), scalars = [1, 2, 3, 4] \<rparr> \<rparr>)) =
     Inl ShortVolumeError"
  using short_volume_check [of "example_engine (1, 1, 1)" None "example_image NoResample"
      "\<lparr> dimensions = (1, 1, 5), data_spacing = (1, 1, 1), scalars = [1, 2, 3, 4, 5] \<rparr>" 1 1 5]
    short_volume_check [of "example_engine (1, 1, 1)" None
      "(example_image NoResample)\<lparr> image_vtk :=
        Some \<lparr> dimensions = (1, 1, 4), data_spacing = (1, 1, 1), scalars = [1, 2, 3, 4] \<rparr> \<rparr>"
      "\<lparr> dimensions = (1, 1, 4), data_spacing = (1, 1, 1), scalars = [1, 2, 3, 4] \<rparr>" 1 1 4]
  by (simp add: get_slices_def update_image_def resolve_spacing_def example_engine_def
      example_image_def example_reader_def reslice_setup_def extract_array_def reshape3_def
      rot90_2_def Let_def upt_rec)

subsection \<open>The cache\<close>

text \<open>
  C7, as the code has it. Each setter empties the cache and calls nothing. \<open>get_slices\<close>
  on a filled cache reads the cached image and leaves the object as it is; on an empty
  cache it calls \<open>update_image\<close> once. The cache is filled only when \<open>update_image\<close>
  returns: if the first of two consecutive calls of \<open>get_slices\<close> leaves the cache filled,
  the second changes nothing, and the two calls together run \<open>update_image\<close> at most
  once.
\<close>

theorem lazy_recompute:
  "image_vtk (set_transform az ay ox v) = None \<and>
   n_updates (set_transform az ay ox v) = n_updates v \<and>
   image_vtk (set_spacing sp v) = None \<and>
   n_updates (set_spacing sp v) = n_updates v \<and>
   (image_vtk v = Some img \<longrightarrow>
      get_slices eng dt v = (extract_array dt (shear_params v) img, v)) \<and>
   (image_vtk v = None \<longrightarrow>
      n_updates (snd (get_slices eng dt v)) = Suc (n_updates v)) \<and>
   (image_vtk (snd (get_slices eng dt v)) \<noteq> None \<longrightarrow>
      snd (get_slices eng dt' (snd (get_slices eng dt v))) = snd (get_slices eng dt v) \<and>
      n_updates (snd (get_slices eng dt' (snd (get_slices eng dt v)))) \<le> Suc (n_updates v))"
proof -
  have setters: "image_vtk (set_transform az ay ox v) = None \<and>
      n_updates (set_transform az ay ox v) = n_updates v \<and>
      image_vtk (set_spacing sp v) = None \<and>
      n_updates (set_spacing sp v) = n_updates v"
    by (simp add: set_transform_def set_spacing_def)
  have cached: "image_vtk v = Some img \<longrightarrow>
      get_slices eng dt v = (extract_array dt (shear_params v) img, v)"
    by (simp add: get_slices_cached)
  have count: "n_updates (snd (get_slices eng dt v)) = Suc (n_updates v)" if "image_vtk v = None"
    using get_slices_uncached [OF that, of eng dt] by auto
  have bound: "n_updates (snd (get_slices eng dt v)) \<le> Suc (n_updates v)"
  proof (cases "image_vtk v")
    case None
    then show ?thesis using count by simp
  next
    case (Some i)
    then show ?thesis by (simp add: get_slices_cached)
  qed
  have twice: "snd (get_slices eng dt' (snd (get_slices eng dt v))) = snd (get_slices eng dt v)"
    if filled: "image_vtk (snd (get_slices eng dt v)) \<noteq> None"
  proof -
    obtain i where "image_vtk (snd (get_slices eng dt v)) = Some i"
      using filled by auto
    then show ?thesis by (simp add: get_slices_cached)
  qed
  show ?thesis using setters cached count bound twice by simp
qed

theorem lazy_recompute_witness:
  "image_vtk (snd (get_slices (example_engine (1, 1, 1)) None (example_image NoResample))) \<noteq> None \<and>
   n_updates (snd (get_slices (example_engine (1, 1, 1)) None
      (snd (get_slices (example_engine (1, 1, 1)) None (example_image NoResample))))) = 1"
  using lazy_recompute [of 0 0 None "example_image NoResample" NoResample
      "\<lparr> dimensions = (1, 1, 5), data_spacing = (1, 1, 1), scalars = [1, 2, 3, 4, 5] \<rparr>"
      "example_engine (1, 1, 1)" None None]
  by (simp add: get_slices_def update_image_def resolve_spacing_def example_engine_def
      example_image_def example_reader_def reslice_setup_def Let_def)

text \<open>
  C7 as stated fails: when \<open>update_image\<close> raises (here the policy \<open>auto\<close> on a zero
  spacing), the cache stays empty, and two consecutive calls of \<open>get_slices\<close> with no
  setter between them run \<open>update_image\<close> twice.
\<close>

theorem lazy_recompute_counterexample:
  "n_updates (snd (get_slices (example_engine (0, 1, 1)) None
      (snd (get_slices (example_engine (0, 1, 1)) None (example_image Auto))))) =
   n_updates (example_image Auto) + 2"
  by (simp add: get_slices_def update_image_def resolve_spacing_def example_engine_def
      example_image_def Let_def)

section \<open>Properties of \<open>process_scan\<close>\<close>

subsection \<open>The footprint of the crop\<close>

lemma crop_slice_shape:
  "length (crop_slice s (tw, th) x y bg) = th \<and>
   (\<forall>row \<in> set (crop_slice s (tw, th) x y bg). length row = tw)"
  by (auto simp add: crop_slice_def Let_def)

lemma crop_slice_nth:
  "i < th \<Longrightarrow> j < tw \<Longrightarrow>
   crop_slice s (tw, th) x y bg ! i ! j =
     pixel_or_bg s (\<lfloor>y - real th / 2\<rfloor> + int i) (\<lfloor>x - real tw / 2\<rfloor> + int j) bg"
  by (simp add: crop_slice_def Let_def)

lemma crop_scan_length: "length (crop_scan scan out_size x y bg) = length scan"
  by (simp add: crop_scan_def)

lemma shape3_crop_scan:
  "scan \<noteq> [] \<Longrightarrow> shape3 (crop_scan scan (tw, th) x y bg) = (length scan, th, if th = 0 then 0 else tw)"
  by (cases scan) (auto simp add: shape3_def shape2_def crop_scan_def crop_slice_def Let_def upt_rec [of 0] split: list.splits)

text \<open>
  C9. For every volume, every centroid \<open>(x, y)\<close> and every fill value, the crop to
  \<open>OUT_SIZE\<close> keeps the depth and gives every slice 400 rows of 400 entries, so the shape
  of the output of a non-empty volume is \<open>(depth, 400, 400)\<close>. The entry \<open>(i, j)\<close> of an
  output slice is the voxel of the input slice at row \<open>\<lfloor>y - 200\<rfloor> + i\<close> and column
  \<open>\<lfloor>x - 200\<rfloor> + j\<close> when that position lies in the input slice, and the fill value when
  it does not: the window is padded, not clamped.
\<close>

theorem crop_footprint:
  "length (crop_scan scan OUT_SIZE x y bg) = length scan \<and>
   (\<forall>s \<in> set (crop_scan scan OUT_SIZE x y bg).
      length s = 400 \<and> (\<forall>row \<in> set s. length row = 400)) \<and>
   (scan \<noteq> [] \<longrightarrow> shape3 (crop_scan scan OUT_SIZE x y bg) = (length scan, 400, 400)) \<and>
   (\<forall>d i j. d < length scan \<longrightarrow> i < 400 \<longrightarrow> j < 400 \<longrightarrow>
      crop_scan scan OUT_SIZE x y bg ! d ! i ! j =
        (let r = \<lfloor>y - 200\<rfloor> + int i; c = \<lfloor>x - 200\<rfloor> + int j
         in if 0 \<le> r \<and> r < int (length (scan ! d)) \<and> 0 \<le> c \<and> c < int (length (scan ! d ! nat r))
            then scan ! d ! nat r ! nat c else bg))"
proof -
  have a: "\<forall>s \<in> set (crop_scan scan OUT_SIZE x y bg).
      length s = 400 \<and> (\<forall>row \<in> set s. length row = 400)"
    using crop_slice_shape [of _ 400 400 x y bg] by (auto simp add: crop_scan_def OUT_SIZE_def)
  have b: "scan \<noteq> [] \<longrightarrow> shape3 (crop_scan scan OUT_SIZE x y bg) = (length scan, 400, 400)"
    by (simp add: shape3_crop_scan OUT_SIZE_def)
  have c: "crop_scan scan OUT_SIZE x y bg ! d ! i ! j =
        (let r = \<lfloor>y - 200\<rfloor> + int i; c = \<lfloor>x - 200\<rfloor> + int j
         in if 0 \<le> r \<and> r < int (length (scan ! d)) \<and> 0 \<le> c \<and> c < int (length (scan ! d ! nat r))
            then scan ! d ! nat r ! nat c else bg)"
    if "d < length scan" "i < 400" "j < 400" for d i j
    using that crop_slice_nth [of i 400 j 400 "scan ! d" x y bg]
    by (simp add: crop_scan_def OUT_SIZE_def pixel_or_bg_def Let_def)
  show ?thesis using a b c by (simp add: crop_scan_length)
qed

theorem crop_footprint_witness:
  "length (crop_scan [[[1]]] OUT_SIZE 0 0 (- 2000)) = 1 \<and>
   shape3 (crop_scan [[[1]]] OUT_SIZE 0 0 (- 2000)) = (1, 400, 400) \<and>
   crop_scan [[[1]]] OUT_SIZE 0 0 (- 2000) ! 0 ! 200 ! 200 = 1 \<and>
   crop_scan [[[1]]] OUT_SIZE 0 0 (- 2000) ! 0 ! 0 ! 0 = - 2000"
proof -
  note t = crop_footprint [of "[[[1]]]" 0 0 "- 2000"]
  have "crop_scan [[[1]]] OUT_SIZE 0 0 (- 2000) ! 0 ! 200 ! 200 = 1"
    using t by (simp add: Let_def)
  moreover have "crop_scan [[[1]]] OUT_SIZE 0 0 (- 2000) ! 0 ! 0 ! 0 = - 2000"
    using t by (simp add: Let_def)
  ultimately show ?thesis using t by simp
qed

subsection \<open>Reconstruction, crop and persistence\<close>

lemma load_slices_Inr:
  "load_slices w ps = Inr ss \<longleftrightarrow> map (\<lambda>p. load w p False) ps = map Inr ss"
proof (induction ps arbitrary: ss)
  case Nil
  then show ?case by auto
next
  case (Cons p ps)
  show ?case
  proof (cases "load w p False")
    case (Inl e)
    then show ?thesis by (cases ss) auto
  next
    case (Inr s)
    show ?thesis
    proof (cases "load_slices w ps")
      case (Inl e)
      have "map (\<lambda>p. load w p False) ps \<noteq> map Inr ss'" for ss'
        using Cons.IH [of ss'] Inl by simp
      then show ?thesis using Inl Inr by (cases ss) auto
    next
      case r: (Inr ss0)
      have "map (\<lambda>p. load w p False) ps = map Inr ss0"
        using Cons.IH [of ss0] r by simp
      then show ?thesis using r Inr by (cases ss) (auto simp add: inj_map_eq_map)
    qed
  qed
qed

lemma reconstruct_fallback:
  "primary_path w dir = Inl e \<Longrightarrow>
   reconstruct w dir =
     ([PrintExc e, Print dir], map_sum id (\<lambda>scan. (scan, None, None)) (fallback_path w dir))"
  by (simp add: reconstruct_def split: sum.splits)

lemma save_slices_no_meta: "Write p (MetaJson m) \<notin> set (fst (save_slices w out idx vol))"
  by (induction vol arbitrary: idx) (auto simp add: Let_def split_beta split: option.splits)

lemma save_slices_all_ok:
  "(\<forall>k < length vol. write_file w (out @ format_03d (idx + k) @ ''.npy'')
       (Npy (map (map (int16 w)) (vol ! k))) = None) \<Longrightarrow>
   save_slices w out idx vol =
     (map (\<lambda>k. Write (out @ format_03d (idx + k) @ ''.npy'') (Npy (map (map (int16 w)) (vol ! k))))
        [0..<length vol], None)"
proof (induction vol arbitrary: idx)
  case Nil
  then show ?case by simp
next
  case (Cons s vol)
  have h0: "write_file w (out @ format_03d idx @ ''.npy'') (Npy (map (map (int16 w)) s)) = None"
    using Cons.prems [rule_format, of 0] by simp
  have hk: "\<forall>k < length vol. write_file w (out @ format_03d (Suc idx + k) @ ''.npy'')
       (Npy (map (map (int16 w)) (vol ! k))) = None"
    using Cons.prems by (auto dest: spec [of _ "Suc k" for k])
  have m: "map (\<lambda>k. Write (out @ format_03d (idx + k) @ ''.npy'')
             (Npy (map (map (int16 w)) ((s # vol) ! k)))) [0..<length (s # vol)] =
        Write (out @ format_03d idx @ ''.npy'') (Npy (map (map (int16 w)) s)) #
        map (\<lambda>k. Write (out @ format_03d (Suc idx + k) @ ''.npy'')
             (Npy (map (map (int16 w)) (vol ! k)))) [0..<length vol]"
    by (simp add: map_upt_Suc del: upt_Suc)
  show ?case
    unfolding m using h0 Cons.IH [OF hk] by (simp add: Let_def del: upt_Suc)
qed

lemma save_slices_first_error:
  "k < length vol \<Longrightarrow>
   (\<forall>j < k. write_file w (out @ format_03d (idx + j) @ ''.npy'')
       (Npy (map (map (int16 w)) (vol ! j))) = None) \<Longrightarrow>
   write_file w (out @ format_03d (idx + k) @ ''.npy'')
       (Npy (map (map (int16 w)) (vol ! k))) = Some e \<Longrightarrow>
   snd (save_slices w out idx vol) = Some e"
proof (induction vol arbitrary: idx k)
  case Nil
  then show ?case by simp
next
  case (Cons s vol)
  show ?case
  proof (cases k)
    case 0
    then show ?thesis using Cons.prems(3) by (simp add: Let_def)
  next
    case (Suc k')
    have h0: "write_file w (out @ format_03d idx @ ''.npy'') (Npy (map (map (int16 w)) s)) = None"
      using Cons.prems(2) [rule_format, of 0] Suc by simp
    have hj: "\<forall>j < k'. write_file w (out @ format_03d (Suc idx + j) @ ''.npy'')
       (Npy (map (map (int16 w)) (vol ! j))) = None"
    proof (intro allI impI)
      fix j assume "j < k'"
      then show "write_file w (out @ format_03d (Suc idx + j) @ ''.npy'')
           (Npy (map (map (int16 w)) (vol ! j))) = None"
        using Cons.prems(2) [rule_format, of "Suc j"] Suc by simp
    qed
    have hk: "write_file w (out @ format_03d (Suc idx + k') @ ''.npy'')
       (Npy (map (map (int16 w)) (vol ! k'))) = Some e"
      using Cons.prems(3) Suc by simp
    have "k' < length vol" using Cons.prems(1) Suc by simp
    from Cons.IH [OF this hj hk] show ?thesis
      using h0 by (simp add: Let_def split_beta)
  qed
qed

lemma crop_and_persist_meta:
  "Write p (MetaJson m) \<in> set (fst (crop_and_persist w out (scan, sp, ori))) \<Longrightarrow>
   meta_spacing m = sp \<and> meta_image_orientation m = ori"
  using save_slices_no_meta [of p m w out 0]
  by (auto simp add: crop_and_persist_def Let_def split_beta split: sum.splits option.splits)

lemma process_scan_after_reconstruct:
  "makedirs w (replace ''dicom/'' ''3d/'' dir) = None \<Longrightarrow>
   reconstruct w dir = (evs, Inr recon) \<Longrightarrow>
   process_scan w dir =
     ([Rmtree (replace ''dicom/'' ''3d/'' dir), Makedirs (replace ''dicom/'' ''3d/'' dir)] @ evs @
        fst (crop_and_persist w (replace ''dicom/'' ''3d/'' dir) recon),
      snd (crop_and_persist w (replace ''dicom/'' ''3d/'' dir) recon))"
  by (simp add: process_scan_def Let_def split: prod.splits)

lemma process_scan_reconstruct_error:
  "makedirs w (replace ''dicom/'' ''3d/'' dir) = None \<Longrightarrow>
   reconstruct w dir = (evs, Inl e) \<Longrightarrow>
   process_scan w dir =
     ([Rmtree (replace ''dicom/'' ''3d/'' dir), Makedirs (replace ''dicom/'' ''3d/'' dir)] @ evs,
      Some e)"
  by (simp add: process_scan_def Let_def)

lemma process_scan_meta_fallback:
  assumes "primary_path w dir = Inl e"
    and "Write p (MetaJson m) \<in> set (fst (process_scan w dir))"
  shows "meta_spacing m = None \<and> meta_image_orientation m = None"
proof (cases "makedirs w (replace ''dicom/'' ''3d/'' dir)")
  case (Some e')
  then show ?thesis using assms(2) by (simp add: process_scan_def Let_def)
next
  case None
  note r = reconstruct_fallback [OF assms(1)]
  show ?thesis
  proof (cases "fallback_path w dir")
    case (Inl e')
    then show ?thesis
      using assms(2) process_scan_reconstruct_error [OF None, of "[PrintExc e, Print dir]" e'] r
      by simp
  next
    case (Inr scan)
    then have "Write p (MetaJson m) \<in>
        set (fst (crop_and_persist w (replace ''dicom/'' ''3d/'' dir) (scan, None, None)))"
      using assms(2)
        process_scan_after_reconstruct [OF None, of "[PrintExc e, Print dir]" "(scan, None, None)"] r
      by simp
    then show ?thesis by (rule crop_and_persist_meta)
  qed
qed


lemma crop_and_persist_crop_error:
  "centroid_and_crop w scan = Inl e \<Longrightarrow> crop_and_persist w out (scan, sp, ori) = ([], Some e)"
  by (simp add: crop_and_persist_def)

lemma crop_and_persist_status:
  "centroid_and_crop w scan = Inr (x, y, cropped) \<Longrightarrow>
   snd (crop_and_persist w out (scan, sp, ori)) =
     (case write_file w (out @ ''../meta.json'')
             (MetaJson \<lparr> meta_spacing = sp, meta_image_orientation = ori, crop_x = x, crop_y = y,
                          pre_crop_shape = shape3 scan, out_shape = shape3 cropped \<rparr>) of
        Some e \<Rightarrow> Some e
      | None \<Rightarrow> snd (save_slices w out 0 cropped))"
  by (simp add: crop_and_persist_def Let_def split_beta split: option.splits)

lemma crop_and_persist_events:
  "centroid_and_crop w scan = Inr (x, y, cropped) \<Longrightarrow>
   write_file w (out @ ''../meta.json'')
      (MetaJson \<lparr> meta_spacing = sp, meta_image_orientation = ori, crop_x = x, crop_y = y,
                   pre_crop_shape = shape3 scan, out_shape = shape3 cropped \<rparr>) = None \<Longrightarrow>
   fst (crop_and_persist w out (scan, sp, ori)) =
     Write (out @ ''../meta.json'')
      (MetaJson \<lparr> meta_spacing = sp, meta_image_orientation = ori, crop_x = x, crop_y = y,
                   pre_crop_shape = shape3 scan, out_shape = shape3 cropped \<rparr>) #
     fst (save_slices w out 0 cropped)"
  by (simp add: crop_and_persist_def Let_def split_beta)

lemma process_scan_status:
  assumes "makedirs w (replace ''dicom/'' ''3d/'' dir) = None"
  shows "snd (process_scan w dir) =
     (case snd (reconstruct w dir) of
        Inl e \<Rightarrow> Some e
      | Inr recon \<Rightarrow> snd (crop_and_persist w (replace ''dicom/'' ''3d/'' dir) recon))"
proof (cases "snd (reconstruct w dir)")
  case (Inl e)
  then have "reconstruct w dir = (fst (reconstruct w dir), Inl e)"
    by (metis prod.collapse)
  from process_scan_reconstruct_error [OF assms this] Inl show ?thesis by simp
next
  case (Inr recon)
  then have "reconstruct w dir = (fst (reconstruct w dir), Inr recon)"
    by (metis prod.collapse)
  from process_scan_after_reconstruct [OF assms this] Inr show ?thesis by simp
qed

text \<open>
  C2. Once the output directory exists, \<open>process_scan\<close> treats errors as follows.
  \<^item> Any error \<open>e\<close> of the body of \<open>try\<close> (the reader, the orientation check, the
    reslice, the spacing resolution, the array extraction) is caught: it is printed with
    the scan directory and the fallback runs in its place, so \<open>e\<close> is not the outcome.
  \<^item> An error of the fallback (listing the directory, loading a slice, stacking) is the
    outcome of \<open>process_scan\<close>.
  \<^item> An error of the centroid and crop step is the outcome of \<open>process_scan\<close>.
  \<^item> An error of writing the metadata, or of the first slice write that fails, is the
    outcome of \<open>process_scan\<close>; when every write succeeds the scan completes.
\<close>

theorem error_policy:
  assumes "makedirs w (replace ''dicom/'' ''3d/'' dir) = None"
  shows
    "(\<forall>e. primary_path w dir = Inl e \<longrightarrow>
        reconstruct w dir =
          ([PrintExc e, Print dir],
           map_sum id (\<lambda>scan. (scan, None, None)) (fallback_path w dir))) \<and>
     (\<forall>e e'. primary_path w dir = Inl e \<longrightarrow> fallback_path w dir = Inl e' \<longrightarrow>
        snd (process_scan w dir) = Some e') \<and>
     (\<forall>scan sp ori e'. snd (reconstruct w dir) = Inr (scan, sp, ori) \<longrightarrow>
        centroid_and_crop w scan = Inl e' \<longrightarrow>
        snd (process_scan w dir) = Some e') \<and>
     (\<forall>scan sp ori x y cropped m.
        snd (reconstruct w dir) = Inr (scan, sp, ori) \<longrightarrow>
        centroid_and_crop w scan = Inr (x, y, cropped) \<longrightarrow>
        m = MetaJson \<lparr> meta_spacing = sp, meta_image_orientation = ori, crop_x = x, crop_y = y,
                        pre_crop_shape = shape3 scan, out_shape = shape3 cropped \<rparr> \<longrightarrow>
        (\<forall>e'. write_file w (replace ''dicom/'' ''3d/'' dir @ ''../meta.json'') m = Some e' \<longrightarrow>
           snd (process_scan w dir) = Some e') \<and>
        (write_file w (replace ''dicom/'' ''3d/'' dir @ ''../meta.json'') m = None \<longrightarrow>
           (\<forall>k e'. k < length cropped \<longrightarrow>
              (\<forall>j < k. write_file w (replace ''dicom/'' ''3d/'' dir @ format_03d j @ ''.npy'')
                 (Npy (map (map (int16 w)) (cropped ! j))) = None) \<longrightarrow>
              write_file w (replace ''dicom/'' ''3d/'' dir @ format_03d k @ ''.npy'')
                 (Npy (map (map (int16 w)) (cropped ! k))) = Some e' \<longrightarrow>
              snd (process_scan w dir) = Some e') \<and>
           ((\<forall>k < length cropped.
               write_file w (replace ''dicom/'' ''3d/'' dir @ format_03d k @ ''.npy'')
                 (Npy (map (map (int16 w)) (cropped ! k))) = None) \<longrightarrow>
            snd (process_scan w dir) = None)))"
proof -
  note st = process_scan_status [OF assms]
  have a: "reconstruct w dir =
          ([PrintExc e, Print dir],
           map_sum id (\<lambda>scan. (scan, None, None)) (fallback_path w dir))"
    if "primary_path w dir = Inl e" for e
    using that by (rule reconstruct_fallback)
  have b: "snd (process_scan w dir) = Some e'"
    if "primary_path w dir = Inl e" "fallback_path w dir = Inl e'" for e e'
    using st a [OF that(1)] that(2) by simp
  have c: "snd (process_scan w dir) = Some e'"
    if "snd (reconstruct w dir) = Inr (scan, sp, ori)" "centroid_and_crop w scan = Inl e'"
    for scan sp ori e'
    using st that(1) crop_and_persist_crop_error [OF that(2)] by simp
  have d1: "snd (process_scan w dir) = Some e'"
    if "snd (reconstruct w dir) = Inr (scan, sp, ori)"
      "centroid_and_crop w scan = Inr (x, y, cropped)"
      "write_file w (replace ''dicom/'' ''3d/'' dir @ ''../meta.json'')
         (MetaJson \<lparr> meta_spacing = sp, meta_image_orientation = ori, crop_x = x, crop_y = y,
                        pre_crop_shape = shape3 scan, out_shape = shape3 cropped \<rparr>) = Some e'"
    for scan sp ori x y cropped e'
    using st that(1) that(3) crop_and_persist_status [OF that(2)] by simp
  have d2: "snd (process_scan w dir) = snd (save_slices w (replace ''dicom/'' ''3d/'' dir) 0 cropped)"
    if "snd (reconstruct w dir) = Inr (scan, sp, ori)"
      "centroid_and_crop w scan = Inr (x, y, cropped)"
      "write_file w (replace ''dicom/'' ''3d/'' dir @ ''../meta.json'')
         (MetaJson \<lparr> meta_spacing = sp, meta_image_orientation = ori, crop_x = x, crop_y = y,
                        pre_crop_shape = shape3 scan, out_shape = shape3 cropped \<rparr>) = None"
    for scan sp ori x y cropped
    using st that(1) that(3) crop_and_persist_status [OF that(2)] by simp
  have e1: "snd (save_slices w out 0 cropped) = Some e'"
    if "k < length cropped"
      "\<forall>j < k. write_file w (out @ format_03d j @ ''.npy'')
                 (Npy (map (map (int16 w)) (cropped ! j))) = None"
      "write_file w (out @ format_03d k @ ''.npy'')
                 (Npy (map (map (int16 w)) (cropped ! k))) = Some e'"
    for out cropped k e'
    using save_slices_first_error [of k cropped w out 0 e'] that by simp
  have e2: "snd (save_slices w out 0 cropped) = None"
    if "\<forall>k < length cropped.
               write_file w (out @ format_03d k @ ''.npy'')
                 (Npy (map (map (int16 w)) (cropped ! k))) = None"
    for out cropped
    using save_slices_all_ok [of cropped w out 0] that by simp
  show ?thesis
  proof (intro conjI allI impI)
    fix e assume "primary_path w dir = Inl e"
    then show "reconstruct w dir =
          ([PrintExc e, Print dir],
           map_sum id (\<lambda>scan. (scan, None, None)) (fallback_path w dir))"
      by (rule a)
  next
    fix e e' assume "primary_path w dir = Inl e" "fallback_path w dir = Inl e'"
    then show "snd (process_scan w dir) = Some e'" by (rule b)
  next
    fix scan sp ori e'
    assume "snd (reconstruct w dir) = Inr (scan, sp, ori)" "centroid_and_crop w scan = Inl e'"
    then show "snd (process_scan w dir) = Some e'" by (rule c)
  next
    fix scan sp ori x y cropped m e'
    assume "snd (reconstruct w dir) = Inr (scan, sp, ori)"
      "centroid_and_crop w scan = Inr (x, y, cropped)"
      "m = MetaJson \<lparr> meta_spacing = sp, meta_image_orientation = ori, crop_x = x, crop_y = y,
                        pre_crop_shape = shape3 scan, out_shape = shape3 cropped \<rparr>"
      "write_file w (replace ''dicom/'' ''3d/'' dir @ ''../meta.json'') m = Some e'"
    then show "snd (process_scan w dir) = Some e'" using d1 by simp
  next
    fix scan sp ori x y cropped m k e'
    assume "snd (reconstruct w dir) = Inr (scan, sp, ori)"
      "centroid_and_crop w scan = Inr (x, y, cropped)"
      "m = MetaJson \<lparr> meta_spacing = sp, meta_image_orientation = ori, crop_x = x, crop_y = y,
                        pre_crop_shape = shape3 scan, out_shape = shape3 cropped \<rparr>"
      "write_file w (replace ''dicom/'' ''3d/'' dir @ ''../meta.json'') m = None"
    then have "snd (process_scan w dir) =
        snd (save_slices w (replace ''dicom/'' ''3d/'' dir) 0 cropped)"
      using d2 by simp
    moreover assume "k < length cropped"
      "\<forall>j < k. write_file w (replace ''dicom/'' ''3d/'' dir @ format_03d j @ ''.npy'')
                 (Npy (map (map (int16 w)) (cropped ! j))) = None"
      "write_file w (replace ''dicom/'' ''3d/'' dir @ format_03d k @ ''.npy'')
                 (Npy (map (map (int16 w)) (cropped ! k))) = Some e'"
    then have "snd (save_slices w (replace ''dicom/'' ''3d/'' dir) 0 cropped) = Some e'"
      by (rule e1)
    ultimately show "snd (process_scan w dir) = Some e'" by simp
  next
    fix scan sp ori x y cropped m
    assume "snd (reconstruct w dir) = Inr (scan, sp, ori)"
      "centroid_and_crop w scan = Inr (x, y, cropped)"
      "m = MetaJson \<lparr> meta_spacing = sp, meta_image_orientation = ori, crop_x = x, crop_y = y,
                        pre_crop_shape = shape3 scan, out_shape = shape3 cropped \<rparr>"
      "write_file w (replace ''dicom/'' ''3d/'' dir @ ''../meta.json'') m = None"
    then have "snd (process_scan w dir) =
        snd (save_slices w (replace ''dicom/'' ''3d/'' dir) 0 cropped)"
      using d2 by simp
    moreover assume "\<forall>k < length cropped.
               write_file w (replace ''dicom/'' ''3d/'' dir @ format_03d k @ ''.npy'')
                 (Npy (map (map (int16 w)) (cropped ! k))) = None"
    then have "snd (save_slices w (replace ''dicom/'' ''3d/'' dir) 0 cropped) = None"
      by (rule e2)
    ultimately show "snd (process_scan w dir) = None" by simp
  qed
qed


lemma example_primary_fails:
  "vtk w = example_engine sp \<Longrightarrow> dir \<noteq> ''s1/dicom/'' \<Longrightarrow> primary_path w dir = Inl (IOError dir)"
  by (simp add: primary_path_def VtkImage_init_def example_engine_def)

lemma example_fallback_two:
  "iterdir w = iterdir (example_world eng) \<Longrightarrow> load w = load (example_world eng) \<Longrightarrow>
   fallback_path w ''s2/dicom/'' = Inr [[[1]], [[2]]]"
  by (simp add: fallback_path_def example_world_def np_stack_def shape2_def)

lemma example_fallback_one:
  "iterdir w = iterdir (example_world eng) \<Longrightarrow> load w = load (example_world eng) \<Longrightarrow>
   fallback_path w ''s4/dicom/'' = Inr [[[1]]]"
  by (simp add: fallback_path_def example_world_def np_stack_def shape2_def)

lemma example_centroid_two:
  "centroid_and_crop w [[[1]], [[2]]] =
     Inr (Some 0, Some 0, crop_scan [[[1]], [[2]]] OUT_SIZE 0 0 (- 2000))"
  by (simp add: centroid_and_crop_def center_of_mass_def positive_mask_def voxel_coords_def
      enumerate_eq_zip BG_HU_def)

lemma example_centroid_one:
  "centroid_and_crop w [[[1]]] =
     Inr (Some 0, Some 0, crop_scan [[[1]]] OUT_SIZE 0 0 (- 2000))"
  by (simp add: centroid_and_crop_def center_of_mass_def positive_mask_def voxel_coords_def
      enumerate_eq_zip BG_HU_def)

lemma example_out_dir: "replace ''dicom/'' ''3d/'' ''s2/dicom/'' = ''s2/3d/''"
  by simp

lemma format_03d_0: "format_03d 0 = ''000''"
  by code_simp

theorem error_policy_witness:
  "snd (process_scan (example_world (example_engine (1, 1, 1))) ''s2/dicom/'') = None \<and>
   snd (process_scan (example_world (example_engine (1, 1, 1))) ''s3/dicom/'') =
     Some (IOError ''s3/dicom/'') \<and>
   snd (process_scan ((example_world (example_engine (1, 1, 1)))
          \<lparr> load := \<lambda>p convert_hu. Inr [[0]] \<rparr>) ''s2/dicom/'') =
     Some (LibraryError ''nan'') \<and>
   snd (process_scan ((example_world (example_engine (1, 1, 1)))
          \<lparr> write_file := \<lambda>p c. Some (IOError p) \<rparr>) ''s2/dicom/'') =
     Some (IOError ''s2/3d/../meta.json'') \<and>
   snd (process_scan ((example_world (example_engine (1, 1, 1)))
          \<lparr> write_file := \<lambda>p c. (case c of MetaJson m \<Rightarrow> None | Npy a \<Rightarrow> Some (IOError p)) \<rparr>)
          ''s2/dicom/'') =
     Some (IOError ''s2/3d/000.npy'')"
proof -
  define W where "W = example_world (example_engine (1, 1, 1))"
  define W2 where "W2 = W\<lparr> load := \<lambda>p convert_hu. Inr [[0]] \<rparr>"
  define W3 where "W3 = W\<lparr> write_file := \<lambda>p c. Some (IOError p) \<rparr>"
  define W4 where "W4 = W\<lparr> write_file :=
      \<lambda>p c. (case c of MetaJson m \<Rightarrow> None | Npy a \<Rightarrow> Some (IOError p)) \<rparr>"
  have vtk: "vtk W = example_engine (1, 1, 1)" "vtk W2 = example_engine (1, 1, 1)"
    "vtk W3 = example_engine (1, 1, 1)" "vtk W4 = example_engine (1, 1, 1)"
    by (simp_all add: W_def W2_def W3_def W4_def example_world_def)
  have mk: "makedirs W d = None" "makedirs W2 d = None" "makedirs W3 d = None"
    "makedirs W4 d = None" for d
    by (simp_all add: W_def W2_def W3_def W4_def example_world_def)
  have it: "iterdir W = iterdir (example_world (example_engine (1, 1, 1)))"
    "iterdir W3 = iterdir (example_world (example_engine (1, 1, 1)))"
    "iterdir W4 = iterdir (example_world (example_engine (1, 1, 1)))"
    by (simp_all add: W_def W3_def W4_def)
  have ld: "load W = load (example_world (example_engine (1, 1, 1)))"
    "load W3 = load (example_world (example_engine (1, 1, 1)))"
    "load W4 = load (example_world (example_engine (1, 1, 1)))"
    by (simp_all add: W_def W3_def W4_def)
  have p2: "primary_path W ''s2/dicom/'' = Inl (IOError ''s2/dicom/'')"
    "primary_path W2 ''s2/dicom/'' = Inl (IOError ''s2/dicom/'')"
    "primary_path W3 ''s2/dicom/'' = Inl (IOError ''s2/dicom/'')"
    "primary_path W4 ''s2/dicom/'' = Inl (IOError ''s2/dicom/'')"
    using vtk by (simp_all add: example_primary_fails)
  have p3: "primary_path W ''s3/dicom/'' = Inl (IOError ''s3/dicom/'')"
    using vtk by (simp add: example_primary_fails)
  have f: "fallback_path W ''s2/dicom/'' = Inr [[[1]], [[2]]]"
    "fallback_path W3 ''s2/dicom/'' = Inr [[[1]], [[2]]]"
    "fallback_path W4 ''s2/dicom/'' = Inr [[[1]], [[2]]]"
    using it ld by (simp_all add: example_fallback_two)
  have f2: "fallback_path W2 ''s2/dicom/'' = Inr [[[0]], [[0]]]"
    by (simp add: W2_def W_def fallback_path_def example_world_def np_stack_def shape2_def)
  have f3: "fallback_path W ''s3/dicom/'' = Inl (IOError ''s3/dicom/'')"
    by (simp add: W_def fallback_path_def example_world_def)
  have c2: "centroid_and_crop W2 [[[0]], [[0]]] = Inl (LibraryError ''nan'')"
    by (simp add: W2_def W_def centroid_and_crop_def center_of_mass_def positive_mask_def
        voxel_coords_def enumerate_eq_zip example_world_def)
  note tW = error_policy [of W "''s2/dicom/''", OF mk(1)]
  note tW' = error_policy [of W "''s3/dicom/''", OF mk(1)]
  note tW2 = error_policy [of W2 "''s2/dicom/''", OF mk(2)]
  note tW3 = error_policy [of W3 "''s2/dicom/''", OF mk(3)]
  note tW4 = error_policy [of W4 "''s2/dicom/''", OF mk(4)]
  have r: "snd (reconstruct W ''s2/dicom/'') = Inr ([[[1]], [[2]]], None, None)"
    using tW [THEN conjunct1, rule_format, OF p2(1)] f(1) by simp
  have r2: "snd (reconstruct W2 ''s2/dicom/'') = Inr ([[[0]], [[0]]], None, None)"
    using tW2 [THEN conjunct1, rule_format, OF p2(2)] f2 by simp
  have r3: "snd (reconstruct W3 ''s2/dicom/'') = Inr ([[[1]], [[2]]], None, None)"
    using tW3 [THEN conjunct1, rule_format, OF p2(3)] f(2) by simp
  have r4: "snd (reconstruct W4 ''s2/dicom/'') = Inr ([[[1]], [[2]]], None, None)"
    using tW4 [THEN conjunct1, rule_format, OF p2(4)] f(3) by simp
  have a1: "snd (process_scan W ''s2/dicom/'') = None"
    using tW [THEN conjunct2, THEN conjunct2, THEN conjunct2, rule_format,
        OF r example_centroid_two refl, THEN conjunct2]
    by (simp add: W_def example_world_def)
  have a2: "snd (process_scan W ''s3/dicom/'') = Some (IOError ''s3/dicom/'')"
    using tW' [THEN conjunct2, THEN conjunct1, rule_format, OF p3 f3] .
  have a3: "snd (process_scan W2 ''s2/dicom/'') = Some (LibraryError ''nan'')"
    using tW2 [THEN conjunct2, THEN conjunct2, THEN conjunct1, rule_format, OF r2 c2] .
  have a4: "snd (process_scan W3 ''s2/dicom/'') = Some (IOError ''s2/3d/../meta.json'')"
    using tW3 [THEN conjunct2, THEN conjunct2, THEN conjunct2, rule_format,
        OF r3 example_centroid_two refl, THEN conjunct1, rule_format,
        of "IOError ''s2/3d/../meta.json''"]
    by (simp add: W3_def)
  have a5: "snd (process_scan W4 ''s2/dicom/'') = Some (IOError ''s2/3d/000.npy'')"
    using tW4 [THEN conjunct2, THEN conjunct2, THEN conjunct2, rule_format,
        OF r4 example_centroid_two refl, THEN conjunct2, rule_format, THEN conjunct1,
        rule_format, of 0 "IOError ''s2/3d/000.npy''"]
    by (simp add: W4_def crop_scan_def format_03d_0)
  show ?thesis
    using a1 a2 a3 a4 a5 by (simp add: W_def W2_def W3_def W4_def)
qed

subsection \<open>The fallback\<close>

lemma np_stack_Inr: "np_stack slices = Inr v \<Longrightarrow> v = slices \<and> slices \<noteq> []"
  by (auto simp add: np_stack_def split: list.splits if_splits)

lemma fallback_path_Inr:
  "fallback_path w dir = Inr scan \<longleftrightarrow>
     (\<exists>paths. iterdir w dir = Inr paths \<and>
        map (\<lambda>p. load w p False) (sort paths) = map Inr scan \<and> np_stack scan = Inr scan)"
proof
  assume a: "fallback_path w dir = Inr scan"
  then obtain paths where p: "iterdir w dir = Inr paths"
    by (cases "iterdir w dir") (simp_all add: fallback_path_def)
  then obtain slices where s: "load_slices w (sort paths) = Inr slices"
    using a by (cases "load_slices w (sort paths)") (simp_all add: fallback_path_def)
  have st: "np_stack slices = Inr scan"
    using a p s by (simp add: fallback_path_def)
  then have "scan = slices" by (simp add: np_stack_Inr)
  then show "\<exists>paths. iterdir w dir = Inr paths \<and>
        map (\<lambda>p. load w p False) (sort paths) = map Inr scan \<and> np_stack scan = Inr scan"
    using p s st by (auto simp add: load_slices_Inr)
next
  assume "\<exists>paths. iterdir w dir = Inr paths \<and>
        map (\<lambda>p. load w p False) (sort paths) = map Inr scan \<and> np_stack scan = Inr scan"
  then obtain paths where "iterdir w dir = Inr paths"
    "load_slices w (sort paths) = Inr scan" "np_stack scan = Inr scan"
    by (auto simp add: load_slices_Inr)
  then show "fallback_path w dir = Inr scan"
    by (simp add: fallback_path_def)
qed

lemma process_scan_completed_meta:
  assumes "snd (process_scan w dir) = None"
  shows "\<exists>m. Write (replace ''dicom/'' ''3d/'' dir @ ''../meta.json'') (MetaJson m)
            \<in> set (fst (process_scan w dir))"
proof -
  have mk: "makedirs w (replace ''dicom/'' ''3d/'' dir) = None"
    using assms by (cases "makedirs w (replace ''dicom/'' ''3d/'' dir)")
      (simp_all add: process_scan_def Let_def)
  obtain scan sp ori where r: "snd (reconstruct w dir) = Inr (scan, sp, ori)"
    using assms process_scan_status [OF mk]
    by (cases "snd (reconstruct w dir)") auto
  then have rr: "reconstruct w dir = (fst (reconstruct w dir), Inr (scan, sp, ori))"
    by (metis prod.collapse)
  have st: "snd (crop_and_persist w (replace ''dicom/'' ''3d/'' dir) (scan, sp, ori)) = None"
    using assms process_scan_status [OF mk] r by simp
  obtain x y cropped where c: "centroid_and_crop w scan = Inr (x, y, cropped)"
    using st by (cases "centroid_and_crop w scan") (auto simp add: crop_and_persist_crop_error)
  have wm: "write_file w (replace ''dicom/'' ''3d/'' dir @ ''../meta.json'')
      (MetaJson \<lparr> meta_spacing = sp, meta_image_orientation = ori, crop_x = x, crop_y = y,
                   pre_crop_shape = shape3 scan, out_shape = shape3 cropped \<rparr>) = None"
    using st crop_and_persist_status [OF c, of "replace ''dicom/'' ''3d/'' dir" sp ori]
    by (simp split: option.splits)
  show ?thesis
    using process_scan_after_reconstruct [OF mk rr] crop_and_persist_events [OF c wm]
    by auto
qed

lemma fallback_run:
  assumes mk: "makedirs w out = None"
    and out: "out = replace ''dicom/'' ''3d/'' dir"
    and prim: "primary_path w dir = Inl e"
    and fb: "fallback_path w dir = Inr scan"
    and com: "center_of_mass (positive_mask scan) = Some (z, y, x)"
    and cropped: "cropped = crop_scan scan OUT_SIZE x y (- 2000)"
    and m: "m = MetaJson \<lparr> meta_spacing = None, meta_image_orientation = None,
                crop_x = Some x, crop_y = Some y,
                pre_crop_shape = shape3 scan, out_shape = (length scan, 400, 400) \<rparr>"
    and wm: "write_file w (out @ ''../meta.json'') m = None"
    and ws: "\<forall>k < length scan. write_file w (out @ format_03d k @ ''.npy'')
                (Npy (map (map (int16 w)) (cropped ! k))) = None"
  shows "process_scan w dir =
     ([Rmtree out, Makedirs out, PrintExc e, Print dir, Write (out @ ''../meta.json'') m] @
        map (\<lambda>k. Write (out @ format_03d k @ ''.npy'') (Npy (map (map (int16 w)) (cropped ! k))))
          [0..<length scan],
      None)"
proof -
  have ne: "scan \<noteq> []"
    using fb np_stack_Inr by (auto simp add: fallback_path_Inr)
  have sh: "shape3 cropped = (length scan, 400, 400)"
    using ne by (simp add: cropped shape3_crop_scan OUT_SIZE_def)
  have len: "length cropped = length scan"
    by (simp add: cropped crop_scan_length)
  have c: "centroid_and_crop w scan = Inr (Some x, Some y, cropped)"
    using com by (simp add: centroid_and_crop_def cropped BG_HU_def)
  have r: "reconstruct w dir = ([PrintExc e, Print dir], Inr (scan, None, None))"
    using reconstruct_fallback [OF prim] fb by simp
  have wm': "write_file w (out @ ''../meta.json'')
      (MetaJson \<lparr> meta_spacing = None, meta_image_orientation = None,
                   crop_x = Some x, crop_y = Some y,
                   pre_crop_shape = shape3 scan, out_shape = shape3 cropped \<rparr>) = None"
    using wm by (simp add: m sh)
  have sv: "save_slices w out 0 cropped =
     (map (\<lambda>k. Write (out @ format_03d k @ ''.npy'') (Npy (map (map (int16 w)) (cropped ! k))))
        [0..<length scan], None)"
    using save_slices_all_ok [of cropped w out 0] ws len by simp
  have ev: "fst (crop_and_persist w out (scan, None, None)) =
      Write (out @ ''../meta.json'') m # fst (save_slices w out 0 cropped)"
    using crop_and_persist_events [OF c wm'] by (simp add: m sh)
  have st: "snd (crop_and_persist w out (scan, None, None)) = snd (save_slices w out 0 cropped)"
    using crop_and_persist_status [OF c, of out None None] wm' by simp
  show ?thesis
    using process_scan_after_reconstruct [of w dir, OF mk [unfolded out] r] ev st sv
    by (simp add: out)
qed

text \<open>
  C3. When the reader delivers an orientation whose fifth component \<open>y2\<close> is zero, the
  constructor raises \<open>OrientationError\<close> for every spacing argument: no object is made, so
  no transform is built. \<open>process_scan\<close> prints the error and runs the fallback; every
  metadata record it writes has spacing \<open>None\<close> and orientation \<open>None\<close>, and when the scan
  completes such a record has been written to \<open>meta.json\<close>.
\<close>

theorem orientation_rejected:
  assumes "read_series (vtk w) dir = Inr rd"
    and "orientation_patient rd = (x1, y1, z1, x2, 0, z2)"
  shows "VtkImage_init (vtk w) dir sp = Inl (OrientationError (x1, y1, z1, x2, 0, z2)) \<and>
         reconstruct w dir =
           ([PrintExc (OrientationError (x1, y1, z1, x2, 0, z2)), Print dir],
            map_sum id (\<lambda>scan. (scan, None, None)) (fallback_path w dir)) \<and>
         (\<forall>p m. Write p (MetaJson m) \<in> set (fst (process_scan w dir)) \<longrightarrow>
            meta_spacing m = None \<and> meta_image_orientation m = None) \<and>
         (snd (process_scan w dir) = None \<longrightarrow>
            (\<exists>m. Write (replace ''dicom/'' ''3d/'' dir @ ''../meta.json'') (MetaJson m)
                   \<in> set (fst (process_scan w dir)) \<and>
                 meta_spacing m = None \<and> meta_image_orientation m = None))"
proof -
  have i: "VtkImage_init (vtk w) dir sp' = Inl (OrientationError (x1, y1, z1, x2, 0, z2))" for sp'
    using assms by (simp add: VtkImage_init_def)
  have p: "primary_path w dir = Inl (OrientationError (x1, y1, z1, x2, 0, z2))"
    using i [of NoResample] by (simp add: primary_path_def)
  have n: "meta_spacing m = None \<and> meta_image_orientation m = None"
    if "Write p (MetaJson m) \<in> set (fst (process_scan w dir))" for p m
    using process_scan_meta_fallback [OF p that] .
  have c: "\<exists>m. Write (replace ''dicom/'' ''3d/'' dir @ ''../meta.json'') (MetaJson m)
                   \<in> set (fst (process_scan w dir)) \<and>
                 meta_spacing m = None \<and> meta_image_orientation m = None"
    if "snd (process_scan w dir) = None"
    using process_scan_completed_meta [OF that] n by blast
  show ?thesis
    using i [of sp] reconstruct_fallback [OF p] n c by blast
qed

theorem orientation_rejected_witness:
  "VtkImage_init
     ((example_engine (1, 1, 1))
        \<lparr> read_series := \<lambda>d. Inr (example_reader\<lparr> orientation_patient := (1, 0, 0, 0, 0, 1) \<rparr>) \<rparr>)
     ''s2/dicom/'' NoResample = Inl (OrientationError (1, 0, 0, 0, 0, 1)) \<and>
   snd (process_scan
     (example_world ((example_engine (1, 1, 1))
        \<lparr> read_series := \<lambda>d. Inr (example_reader\<lparr> orientation_patient := (1, 0, 0, 0, 0, 1) \<rparr>) \<rparr>))
     ''s2/dicom/'') = None \<and>
   (\<exists>m. Write ''s2/3d/../meta.json'' (MetaJson m) \<in> set (fst (process_scan
     (example_world ((example_engine (1, 1, 1))
        \<lparr> read_series := \<lambda>d. Inr (example_reader\<lparr> orientation_patient := (1, 0, 0, 0, 0, 1) \<rparr>) \<rparr>))
     ''s2/dicom/'')) \<and> meta_spacing m = None \<and> meta_image_orientation m = None)"
proof -
  define E where "E = (example_engine (1, 1, 1))
        \<lparr> read_series := \<lambda>d. Inr (example_reader\<lparr> orientation_patient := (1, 0, 0, 0, 0, 1) \<rparr>) \<rparr>"
  define W where "W = example_world E"
  have v: "vtk W = E" by (simp add: W_def example_world_def)
  have rd: "read_series (vtk W) ''s2/dicom/'' =
      Inr (example_reader\<lparr> orientation_patient := (1, 0, 0, 0, 0, 1) \<rparr>)"
    by (simp add: v E_def)
  have ori: "orientation_patient (example_reader\<lparr> orientation_patient := (1, 0, 0, 0, 0, 1) \<rparr>) =
      (1, 0, 0, 0, 0, 1)"
    by simp
  note t = orientation_rejected [OF rd ori, of NoResample]
  have prim: "primary_path W ''s2/dicom/'' = Inl (OrientationError (1, 0, 0, 0, 0, 1))"
    using t by (simp add: primary_path_def)
  have fb: "fallback_path W ''s2/dicom/'' = Inr [[[1]], [[2]]]"
    by (simp add: W_def example_fallback_two)
  have com: "center_of_mass (positive_mask [[[1]], [[2]]]) = Some (1 / 2, 0, 0)"
    by (simp add: center_of_mass_def positive_mask_def voxel_coords_def enumerate_eq_zip)
  have mk: "makedirs W ''s2/3d/'' = None"
    by (simp add: W_def example_world_def)
  have out: "''s2/3d/'' = replace ''dicom/'' ''3d/'' ''s2/dicom/''"
    by simp
  have wm: "write_file W p c = None" for p c
    by (simp add: W_def example_world_def)
  have ws: "\<forall>k < length [[[1::real]], [[2]]]. write_file W (''s2/3d/'' @ format_03d k @ ''.npy'')
      (Npy (map (map (int16 W)) (crop_scan [[[1]], [[2]]] OUT_SIZE 0 0 (- 2000) ! k))) = None"
    using wm by blast
  have completes: "snd (process_scan W ''s2/dicom/'') = None"
    using fallback_run [OF mk out prim fb com refl refl wm ws] by simp
  have c1: "VtkImage_init E ''s2/dicom/'' NoResample = Inl (OrientationError (1, 0, 0, 0, 0, 1))"
    using t [THEN conjunct1] v by simp
  have c3: "\<exists>m. Write ''s2/3d/../meta.json'' (MetaJson m) \<in> set (fst (process_scan W ''s2/dicom/'')) \<and>
      meta_spacing m = None \<and> meta_image_orientation m = None"
    using t [THEN conjunct2, THEN conjunct2, THEN conjunct2, rule_format, OF completes]
      out [symmetric] by simp
  have "VtkImage_init E ''s2/dicom/'' NoResample = Inl (OrientationError (1, 0, 0, 0, 0, 1)) \<and>
      snd (process_scan W ''s2/dicom/'') = None \<and>
      (\<exists>m. Write ''s2/3d/../meta.json'' (MetaJson m) \<in> set (fst (process_scan W ''s2/dicom/'')) \<and>
         meta_spacing m = None \<and> meta_image_orientation m = None)"
    using c1 completes c3 by blast
  then show ?thesis
    unfolding W_def E_def .
qed

text \<open>
  C6. Let the body of \<open>try\<close> raise. If the reconstruction delivers a volume, its spacing
  and orientation are \<open>None\<close> and the volume is the list of the results of
  \<open>load(path, convert_hu=False)\<close> over the sorted entries of the directory, in that order;
  conversely, when all these loads succeed and stack, that stack is the volume. Nothing
  else is applied to it: it is the volume \<open>process_scan\<close> hands to the centroid and crop
  step, and every metadata record written has spacing \<open>None\<close> and orientation \<open>None\<close>.
\<close>

theorem fallback_stack:
  assumes "primary_path w dir = Inl e"
  shows "(\<forall>scan sp ori. snd (reconstruct w dir) = Inr (scan, sp, ori) \<longrightarrow>
            sp = None \<and> ori = None \<and>
            (\<exists>paths. iterdir w dir = Inr paths \<and>
               map (\<lambda>p. load w p False) (sort paths) = map Inr scan)) \<and>
         (\<forall>paths slices. iterdir w dir = Inr paths \<longrightarrow>
            map (\<lambda>p. load w p False) (sort paths) = map Inr slices \<longrightarrow>
            np_stack slices = Inr slices \<longrightarrow>
            snd (reconstruct w dir) = Inr (slices, None, None)) \<and>
         (\<forall>scan sp ori. makedirs w (replace ''dicom/'' ''3d/'' dir) = None \<longrightarrow>
            snd (reconstruct w dir) = Inr (scan, sp, ori) \<longrightarrow>
            process_scan w dir =
              ([Rmtree (replace ''dicom/'' ''3d/'' dir), Makedirs (replace ''dicom/'' ''3d/'' dir),
                PrintExc e, Print dir] @
                 fst (crop_and_persist w (replace ''dicom/'' ''3d/'' dir) (scan, None, None)),
               snd (crop_and_persist w (replace ''dicom/'' ''3d/'' dir) (scan, None, None)))) \<and>
         (\<forall>p m. Write p (MetaJson m) \<in> set (fst (process_scan w dir)) \<longrightarrow>
            meta_spacing m = None \<and> meta_image_orientation m = None)"
proof -
  note r = reconstruct_fallback [OF assms]
  have a: "sp = None \<and> ori = None \<and>
            (\<exists>paths. iterdir w dir = Inr paths \<and>
               map (\<lambda>p. load w p False) (sort paths) = map Inr scan)"
    if "snd (reconstruct w dir) = Inr (scan, sp, ori)" for scan sp ori
  proof -
    have "fallback_path w dir = Inr scan \<and> sp = None \<and> ori = None"
      using that r by (cases "fallback_path w dir") auto
    then show ?thesis by (auto simp add: fallback_path_Inr)
  qed
  have b: "snd (reconstruct w dir) = Inr (slices, None, None)"
    if "iterdir w dir = Inr paths"
      "map (\<lambda>p. load w p False) (sort paths) = map Inr slices"
      "np_stack slices = Inr slices" for paths slices
  proof -
    have "fallback_path w dir = Inr slices"
      using that by (auto simp add: fallback_path_Inr)
    then show ?thesis using r by simp
  qed
  have c: "process_scan w dir =
              ([Rmtree (replace ''dicom/'' ''3d/'' dir), Makedirs (replace ''dicom/'' ''3d/'' dir),
                PrintExc e, Print dir] @
                 fst (crop_and_persist w (replace ''dicom/'' ''3d/'' dir) (scan, None, None)),
               snd (crop_and_persist w (replace ''dicom/'' ''3d/'' dir) (scan, None, None)))"
    if mk: "makedirs w (replace ''dicom/'' ''3d/'' dir) = None"
      and rc: "snd (reconstruct w dir) = Inr (scan, sp, ori)" for scan sp ori
  proof -
    have "reconstruct w dir = ([PrintExc e, Print dir], Inr (scan, None, None))"
      using rc r a [OF rc] by simp
    from process_scan_after_reconstruct [OF mk this] show ?thesis by simp
  qed
  have d: "meta_spacing m = None \<and> meta_image_orientation m = None"
    if "Write p (MetaJson m) \<in> set (fst (process_scan w dir))" for p m
    using process_scan_meta_fallback [OF assms that] .
  show ?thesis
    using a b c d by blast
qed

theorem fallback_stack_witness:
  "sort [''s2/dicom/b.dcm'', ''s2/dicom/a.dcm''] = [''s2/dicom/a.dcm'', ''s2/dicom/b.dcm''] \<and>
   load (example_world (example_engine (1, 1, 1))) ''s2/dicom/a.dcm'' False = Inr [[1]] \<and>
   load (example_world (example_engine (1, 1, 1))) ''s2/dicom/b.dcm'' False = Inr [[2]] \<and>
   snd (reconstruct (example_world (example_engine (1, 1, 1))) ''s2/dicom/'') =
     Inr ([[[1]], [[2]]], None, None)"
proof -
  define W where "W = example_world (example_engine (1, 1, 1))"
  have prim: "primary_path W ''s2/dicom/'' = Inl (IOError ''s2/dicom/'')"
    by (simp add: W_def example_primary_fails [of _ "(1, 1, 1)"] example_world_def)
  have it: "iterdir W ''s2/dicom/'' = Inr [''s2/dicom/b.dcm'', ''s2/dicom/a.dcm'']"
    by (simp add: W_def example_world_def)
  have srt: "sort [''s2/dicom/b.dcm'', ''s2/dicom/a.dcm''] =
      [''s2/dicom/a.dcm'', ''s2/dicom/b.dcm'']"
    by simp
  have lds: "map (\<lambda>p. load W p False) (sort [''s2/dicom/b.dcm'', ''s2/dicom/a.dcm'']) =
      map Inr [[[1]], [[2]]]"
    unfolding srt by (simp add: W_def example_world_def)
  have st: "np_stack [[[1]], [[2]]] = Inr [[[1]], [[2]]]"
    by (simp add: np_stack_def shape2_def)
  have "snd (reconstruct W ''s2/dicom/'') = Inr ([[[1]], [[2]]], None, None)"
    using fallback_stack [OF prim, THEN conjunct2, THEN conjunct1, rule_format, OF it lds st] .
  then show ?thesis
    using srt by (simp add: W_def example_world_def)
qed

text \<open>
  C10. Let the body of \<open>try\<close> raise and the fallback deliver a stack of fewer than five
  slices with at least one positive voxel, and let the writes succeed. Then
  \<open>process_scan\<close> raises nothing: it computes the centroid, crops, writes the metadata
  with spacing and orientation \<open>None\<close>, and saves one file per slice of the stack.
\<close>

theorem fallback_no_depth_check:
  assumes "makedirs w out = None"
    and "out = replace ''dicom/'' ''3d/'' dir"
    and "primary_path w dir = Inl e"
    and "fallback_path w dir = Inr scan"
    and "length scan < 5"
    and "center_of_mass (positive_mask scan) = Some (z, y, x)"
    and "cropped = crop_scan scan OUT_SIZE x y (- 2000)"
    and "m = MetaJson \<lparr> meta_spacing = None, meta_image_orientation = None,
                crop_x = Some x, crop_y = Some y,
                pre_crop_shape = shape3 scan, out_shape = (length scan, 400, 400) \<rparr>"
    and "write_file w (out @ ''../meta.json'') m = None"
    and "\<forall>k < length scan. write_file w (out @ format_03d k @ ''.npy'')
                (Npy (map (map (int16 w)) (cropped ! k))) = None"
  shows "process_scan w dir =
     ([Rmtree out, Makedirs out, PrintExc e, Print dir, Write (out @ ''../meta.json'') m] @
        map (\<lambda>k. Write (out @ format_03d k @ ''.npy'') (Npy (map (map (int16 w)) (cropped ! k))))
          [0..<length scan],
      None)"
  using assms(1,2,3,4) assms(6,7,8,9,10) by (rule fallback_run)

theorem fallback_no_depth_check_witness:
  "fallback_path (example_world (example_engine (1, 1, 1))) ''s4/dicom/'' = Inr [[[1]]] \<and>
   process_scan (example_world (example_engine (1, 1, 1))) ''s4/dicom/'' =
     ([Rmtree ''s4/3d/'', Makedirs ''s4/3d/'', PrintExc (IOError ''s4/dicom/''), Print ''s4/dicom/'',
       Write ''s4/3d/../meta.json''
         (MetaJson \<lparr> meta_spacing = None, meta_image_orientation = None,
                      crop_x = Some 0, crop_y = Some 0,
                      pre_crop_shape = (1, 1, 1), out_shape = (1, 400, 400) \<rparr>),
       Write ''s4/3d/000.npy''
         (Npy (map (map (int16 (example_world (example_engine (1, 1, 1)))))
            (crop_scan [[[1]]] OUT_SIZE 0 0 (- 2000) ! 0)))],
      None)"
proof -
  define W where "W = example_world (example_engine (1, 1, 1))"
  have mk: "makedirs W ''s4/3d/'' = None"
    by (simp add: W_def example_world_def)
  have out: "''s4/3d/'' = replace ''dicom/'' ''3d/'' ''s4/dicom/''"
    by simp
  have prim: "primary_path W ''s4/dicom/'' = Inl (IOError ''s4/dicom/'')"
    by (simp add: W_def example_primary_fails [of _ "(1, 1, 1)"] example_world_def)
  have fb: "fallback_path W ''s4/dicom/'' = Inr [[[1]]]"
    by (simp add: W_def example_fallback_one)
  have short: "length [[[1::real]]] < 5"
    by simp
  have com: "center_of_mass (positive_mask [[[1]]]) = Some (0, 0, 0)"
    by (simp add: center_of_mass_def positive_mask_def voxel_coords_def enumerate_eq_zip)
  have wm: "write_file W p c = None" for p c
    by (simp add: W_def example_world_def)
  have ws: "\<forall>k < length [[[1::real]]]. write_file W (''s4/3d/'' @ format_03d k @ ''.npy'')
      (Npy (map (map (int16 W)) (crop_scan [[[1]]] OUT_SIZE 0 0 (- 2000) ! k))) = None"
    by (simp add: wm)
  note t = fallback_no_depth_check [OF mk out prim fb short com refl refl wm ws]
  show ?thesis
    using t fb by (simp add: W_def [symmetric] shape3_def shape2_def format_03d_0)
qed

end
